theory Spec2Isabelle
  imports Complex_Main "HOL-Library.Sublist"
begin

section \<open>Values exchanged on the wire\<close>

text \<open>
  The controller and the extension exchange JSON. A JavaScript string is a sequence of
  UTF-16 code units; the model takes strings whose code units fit a HOL character, so
  that \<open>length\<close> is the \<^verbatim>\<open>.length\<close> of the source and the string iterator
  (\<^verbatim>\<open>for (const ch of text)\<close>) yields one code unit per step. A value is what
  \<^verbatim>\<open>JSON.parse\<close> has made of the text received: a finite number is a rational, and a
  number too large for a double is \<^verbatim>\<open>Infinity\<close> or \<^verbatim>\<open>-Infinity\<close>
  (\<open>JInf True\<close>, \<open>JInf False\<close>).
\<close>

datatype json =
    JNull
  | JBool bool
  | JNum rat
  | JInf bool
  | JStr string
  | JArr "json list"
  | JObj "(string \<times> json) list"

text \<open>A property that is absent reads as \<^verbatim>\<open>undefined\<close>: \<open>None\<close>.\<close>

fun truthy :: "json option \<Rightarrow> bool" where
  "truthy None = False"
| "truthy (Some JNull) = False"
| "truthy (Some (JBool b)) = b"
| "truthy (Some (JNum q)) = (q \<noteq> 0)"
| "truthy (Some (JInf b)) = True"
| "truthy (Some (JStr s)) = (s \<noteq> [])"
| "truthy (Some (JArr xs)) = True"
| "truthy (Some (JObj kvs)) = True"

text \<open>\<^verbatim>\<open>Number.isInteger(v)\<close>: the integer that \<open>v\<close> is, when it is one.\<close>

fun isInteger :: "json option \<Rightarrow> int option" where
  "isInteger (Some (JNum q)) = (if of_int \<lfloor>q\<rfloor> = q then Some \<lfloor>q\<rfloor> else None)"
| "isInteger _ = None"

text \<open>
  What \<^verbatim>\<open>JSON.stringify\<close> puts on the wire, read as a value again: a number that is
  not finite is printed as \<^verbatim>\<open>null\<close>, also inside arrays and objects.
\<close>

primrec stringify :: "json \<Rightarrow> json" where
  "stringify JNull = JNull"
| "stringify (JBool b) = JBool b"
| "stringify (JNum q) = JNum q"
| "stringify (JInf b) = JNull"
| "stringify (JStr s) = JStr s"
| "stringify (JArr xs) = JArr (map stringify xs)"
| "stringify (JObj kvs) = JObj (map (map_prod id stringify) kvs)"

text \<open>
  Decimal text of an integer, as a template literal prints it (for magnitudes below
  \<open>10\<^sup>2\<^sup>1\<close>; from there on JavaScript prints an exponent).
\<close>

definition digit_char :: "nat \<Rightarrow> char" where
  "digit_char d = ''0123456789'' ! (d mod 10)"

fun dec_nat :: "nat \<Rightarrow> string" where
  "dec_nat n = (if n < 10 then [digit_char n] else dec_nat (n div 10) @ [digit_char n])"

definition dec :: "int \<Rightarrow> string" where
  "dec i = (if i < 0 then CHR ''-'' # dec_nat (nat (- i)) else dec_nat (nat i))"

text \<open>
  Object spread \<^verbatim>\<open>{...a, ...b}\<close> on property lists: the properties of \<open>b\<close> win.
  \<open>map_of\<close> reads the first binding of a key, so the later object goes first.
\<close>

definition spread :: "(string \<times> json) list \<Rightarrow> (string \<times> json) list \<Rightarrow> (string \<times> json) list" where
  "spread a b = b @ filter (\<lambda>(k, v). k \<notin> fst ` set b) a"

definition get_field :: "(string \<times> json) list \<Rightarrow> string \<Rightarrow> json option" where
  "get_field obj k = map_of obj k"

text \<open>A destructuring default \<^verbatim>\<open>{ x = d }\<close> applies when the property is absent.\<close>

definition or_default :: "'a \<Rightarrow> 'a option \<Rightarrow> 'a" where
  "or_default d v = (case v of None \<Rightarrow> d | Some x \<Rightarrow> x)"

text \<open>
  The parsed inbound object, through the properties the code reads. \<^verbatim>\<open>id\<close>,
  \<^verbatim>\<open>tabId\<close> and \<^verbatim>\<open>expr\<close> are raw JSON values, since the code inspects what
  kind of value they are; \<^verbatim>\<open>cmd\<close> is a string, and the other properties have the
  types the handlers' comments give them
  (\<^verbatim>\<open>{ selector: string, index?: number, timeout_ms?: number }\<close> and so on), numbers
  being integers. The offscreen document passes the whole object on as the payload
  (\<^verbatim>\<open>const payload = msg\<close>).
\<close>

record message =
  m_id :: "json option"
  m_cmd :: "string option"
  m_tabId :: "json option"
  m_url :: "string option"
  m_reuse :: "bool option"
  m_selector :: "string option"
  m_index :: "int option"
  m_timeout_ms :: "int option"
  m_text :: "string option"
  m_clear :: "bool option"
  m_enter :: "bool option"
  m_value :: "string option"
  m_attr :: "string option"
  m_max_len :: "int option"
  m_js :: "string option"
  m_expr :: "json option"
  m_action :: "string option"
  m_max :: "int option"
  m_includeHTML :: "bool option"

definition no_fields :: message where
  "no_fields = \<lparr>m_id = None, m_cmd = None, m_tabId = None, m_url = None, m_reuse = None,
     m_selector = None, m_index = None, m_timeout_ms = None, m_text = None, m_clear = None,
     m_enter = None, m_value = None, m_attr = None, m_max_len = None, m_js = None,
     m_expr = None, m_action = None, m_max = None, m_includeHTML = None\<rparr>"

text \<open>A string property that is absent prints as \<^verbatim>\<open>undefined\<close>.\<close>

definition str_text :: "string option \<Rightarrow> string" where
  "str_text s = or_default ''undefined'' s"

section \<open>The page\<close>

text \<open>
  The document a handler is injected into. Nodes live in a store and are named by their
  address. \<open>val\<close> is the \<^verbatim>\<open>value\<close> of an element that has one, a string as form
  controls have it (an element whose value is a number, as \<^verbatim>\<open>li\<close>, is outside the
  model); assigning \<open>s\<close> to it makes it \<open>sanitize n s\<close>, the element's value
  sanitisation (a text input drops line breaks, a number input everything that is not a
  number). \<open>listeners\<close> is what the scripts of the page do to the nodes when an event
  reaches a node. \<open>css\<close> and \<open>xpath_eval\<close> are
  \<^verbatim>\<open>document.querySelectorAll\<close> and \<^verbatim>\<open>document.evaluate\<close>: what they find
  depends on the time of the call, since the document may change while a handler polls;
  \<open>Inl\<close> is the message of the exception they throw. \<open>clock\<close> is
  \<^verbatim>\<open>performance.now()\<close> in whole milliseconds: \<^verbatim>\<open>sleep(ms)\<close> advances it by
  \<open>ms\<close> and nothing else takes time. \<open>events\<close> records what was dispatched, in
  order, and \<open>eval_log\<close> the times at which \<^verbatim>\<open>document.evaluate\<close> was called.
\<close>

datatype node_kind = ElementNode | TextNode | OtherNode

record node =
  kind :: node_kind
  tagName :: string
  ident :: string
  className :: string
  attributes :: "(string \<times> string) list"
  val :: "string option"
  sanitize :: "string \<Rightarrow> string"
  outerHTML :: string
  textContent :: "string option"
  nodeName :: string
  rect_x :: rat
  rect_y :: rat
  rect_width :: rat
  rect_height :: rat

datatype dom_event =
    ScrollIntoView
  | Focus
  | Mouse string rat rat
  | KeyDown string
  | KeyPress string
  | KeyUp string
  | InputEv "string option"
  | Change

datatype js_outcome = Returned json | Unserialisable string | Thrown string

record page =
  clock :: int
  doc_html :: string
  css :: "int \<Rightarrow> string \<Rightarrow> string + nat list"
  xpath_eval :: "int \<Rightarrow> string \<Rightarrow> string + nat list"
  nodes :: "nat \<Rightarrow> node"
  listeners :: "nat \<Rightarrow> dom_event \<Rightarrow> (nat \<Rightarrow> node) \<Rightarrow> (nat \<Rightarrow> node)"
  events :: "(nat \<times> dom_event) list"
  eval_log :: "int list"
  script :: "string \<Rightarrow> js_outcome"

type_synonym outcome = "string + (string \<times> json) list"

definition sleep :: "int \<Rightarrow> page \<Rightarrow> page" where
  "sleep ms pg = pg\<lparr>clock := clock pg + ms\<rparr>"

definition dispatch :: "nat \<Rightarrow> dom_event \<Rightarrow> page \<Rightarrow> page" where
  "dispatch el ev pg =
     pg\<lparr>events := events pg @ [(el, ev)], nodes := listeners pg el ev (nodes pg)\<rparr>"

definition set_val :: "nat \<Rightarrow> string \<Rightarrow> page \<Rightarrow> page" where
  "set_val el v pg =
     pg\<lparr>nodes := (nodes pg)(el := (nodes pg el)\<lparr>val := Some (sanitize (nodes pg el) v)\<rparr>)\<rparr>"

definition set_textContent :: "nat \<Rightarrow> string \<Rightarrow> page \<Rightarrow> page" where
  "set_textContent el v pg =
     pg\<lparr>nodes := (nodes pg)(el := (nodes pg el)\<lparr>textContent := Some v\<rparr>)\<rparr>"

definition setAttribute :: "nat \<Rightarrow> string \<Rightarrow> string \<Rightarrow> page \<Rightarrow> page" where
  "setAttribute el a v pg =
     pg\<lparr>nodes := (nodes pg)(el := (nodes pg el)
        \<lparr>attributes := (a, v) # filter (\<lambda>(k, _). k \<noteq> a) (attributes (nodes pg el))\<rparr>)\<rparr>"

text \<open>\<^verbatim>\<open>list[idx]\<close>: \<^verbatim>\<open>undefined\<close> outside the list.\<close>

definition item :: "nat list \<Rightarrow> int \<Rightarrow> nat option" where
  "item list idx = (if 0 \<le> idx \<and> idx < int (length list) then Some (list ! nat idx) else None)"

text \<open>\<^verbatim>\<open>s.slice(0, n)\<close>: a negative \<open>n\<close> counts from the end.\<close>

definition slice0 :: "string \<Rightarrow> int \<Rightarrow> string" where
  "slice0 s n = (if n < 0 then take (nat (int (length s) + n)) s else take (nat n) s)"

subsection \<open>Polling for an element (click, type)\<close>

function find_poll :: "page \<Rightarrow> int \<Rightarrow> string \<Rightarrow> int \<Rightarrow> int \<Rightarrow> (string + nat option) \<times> page" where
  "find_poll pg start sel idx timeout =
     (if clock pg - start < timeout then
        (case css pg (clock pg) sel of
           Inl e \<Rightarrow> (Inl e, pg)
         | Inr list \<Rightarrow>
             if int (length list) > idx then (Inr (item list idx), pg)
             else find_poll (sleep 100 pg) start sel idx timeout)
      else (Inr None, pg))"
  by pat_completeness auto
termination
  by (relation "measure (\<lambda>(pg, start, sel, idx, timeout). nat (start + timeout - clock pg))")
     (auto simp: sleep_def)

definition not_found :: "string \<Rightarrow> int \<Rightarrow> string" where
  "not_found selector index = ''Element not found: '' @ selector @ ''['' @ dec index @ '']''"

definition mouse_sequence :: "nat \<Rightarrow> page \<Rightarrow> page" where
  "mouse_sequence el pg =
     (let pg1 = dispatch el ScrollIntoView pg;
          n = nodes pg1 el;
          cx = rect_x n + rect_width n / 2;
          cy = rect_y n + rect_height n / 2
      in fold (\<lambda>t. dispatch el (Mouse t cx cy))
           [''mouseover'', ''mousemove'', ''mousedown'', ''mouseup'', ''click''] pg1)"

definition click :: "message \<Rightarrow> page \<Rightarrow> outcome \<times> page" where
  "click p pg =
     (let selector = str_text (m_selector p);
          index = or_default 0 (m_index p);
          timeout_ms = or_default 2000 (m_timeout_ms p)
      in case find_poll pg (clock pg) selector index timeout_ms of
           (Inl e, pg1) \<Rightarrow> (Inl e, pg1)
         | (Inr None, pg1) \<Rightarrow> (Inl (not_found selector index), pg1)
         | (Inr (Some el), pg1) \<Rightarrow> (Inr [(''clicked'', JBool True)], mouse_sequence el pg1))"

text \<open>One turn of the typing loop: key down, append to the value, input, key press, key up, 5 ms.\<close>

definition type_char :: "nat \<Rightarrow> char \<Rightarrow> page \<Rightarrow> page" where
  "type_char el ch pg =
     (let pg1 = dispatch el (KeyDown [ch]) pg;
          pg2 = (case val (nodes pg1 el) of None \<Rightarrow> pg1 | Some v \<Rightarrow> set_val el (v @ [ch]) pg1);
          pg3 = dispatch el (InputEv (Some [ch])) pg2;
          pg4 = dispatch el (KeyPress [ch]) pg3;
          pg5 = dispatch el (KeyUp [ch]) pg4
      in sleep 5 pg5)"

text \<open>No script of the page changes the node \<open>el\<close> when an event reaches it.\<close>

definition quiet :: "page \<Rightarrow> nat \<Rightarrow> bool" where
  "quiet pg el = (\<forall>ev ns. listeners pg el ev ns el = ns el)"


text \<open>The events one character is typed with.\<close>

definition keystrokes :: "nat \<Rightarrow> char \<Rightarrow> (nat \<times> dom_event) list" where
  "keystrokes el ch = [(el, KeyDown [ch]), (el, InputEv (Some [ch])), (el, KeyPress [ch]), (el, KeyUp [ch])]"

definition type_prepare :: "nat \<Rightarrow> bool \<Rightarrow> page \<Rightarrow> page" where
  "type_prepare el clear pg =
     (let pg1 = dispatch el Focus pg
      in if clear \<and> val (nodes pg1 el) \<noteq> None then set_val el [] pg1 else pg1)"

definition type_into :: "nat \<Rightarrow> string \<Rightarrow> bool \<Rightarrow> bool \<Rightarrow> page \<Rightarrow> page" where
  "type_into el text clear enter pg =
     (let pg2 = type_prepare el clear pg;
          pg3 = fold (type_char el) text pg2;
          pg4 = dispatch el Change pg3
      in if enter then dispatch el (KeyUp ''Enter'') (dispatch el (KeyDown ''Enter'') pg4) else pg4)"

definition typed :: "string \<Rightarrow> (string \<times> json) list" where
  "typed text = [(''typed'', JBool True), (''length'', JNum (of_nat (length text)))]"

text \<open>
  \<open>type\<close> is the handler \<^verbatim>\<open>handlers.type\<close>. Without a \<^verbatim>\<open>text\<close> the loop
  \<^verbatim>\<open>for (const ch of text)\<close> throws after the element was focused and cleared.
\<close>

definition type :: "message \<Rightarrow> page \<Rightarrow> outcome \<times> page" where
  "type p pg =
     (let selector = str_text (m_selector p);
          clear = or_default True (m_clear p);
          enter = or_default False (m_enter p);
          index = or_default 0 (m_index p);
          timeout_ms = or_default 2000 (m_timeout_ms p)
      in case find_poll pg (clock pg) selector index timeout_ms of
           (Inl e, pg1) \<Rightarrow> (Inl e, pg1)
         | (Inr None, pg1) \<Rightarrow> (Inl (not_found selector index), pg1)
         | (Inr (Some el), pg1) \<Rightarrow>
             (case m_text p of
                None \<Rightarrow> (Inl ''text is not iterable'', type_prepare el clear pg1)
              | Some text \<Rightarrow> (Inr (typed text), type_into el text clear enter pg1)))"

subsection \<open>set, exists, get_html, exec_js\<close>

definition set_h :: "message \<Rightarrow> page \<Rightarrow> outcome \<times> page" where
  "set_h p pg =
     (let selector = str_text (m_selector p);
          index = or_default 0 (m_index p)
      in case css pg (clock pg) selector of
           Inl e \<Rightarrow> (Inl e, pg)
         | Inr list \<Rightarrow>
             (case item list index of
                None \<Rightarrow> (Inl (not_found selector index), pg)
              | Some el \<Rightarrow>
                  (Inr [(''set'', JBool True)],
                   if or_default [] (m_attr p) \<noteq> []
                   then setAttribute el (or_default [] (m_attr p)) (str_text (m_value p)) pg
                   else if val (nodes pg el) \<noteq> None
                   then dispatch el Change (dispatch el (InputEv (m_value p))
                          (set_val el (str_text (m_value p)) pg))
                   else set_textContent el (or_default [] (m_value p)) pg)))"

definition exists_h :: "message \<Rightarrow> page \<Rightarrow> outcome \<times> page" where
  "exists_h p pg =
     (case css pg (clock pg) (str_text (m_selector p)) of
        Inl e \<Rightarrow> (Inl e, pg)
      | Inr list \<Rightarrow> (Inr [(''exists'', JBool (int (length list) > or_default 0 (m_index p)))], pg))"

text \<open>
  The markup \<^verbatim>\<open>get_html\<close> reports on: the first match of the selector (the empty
  string when nothing matches), or the whole document without a selector.
\<close>

definition markup :: "message \<Rightarrow> page \<Rightarrow> string + string" where
  "markup p pg =
     (if or_default [] (m_selector p) \<noteq> []
      then (case css pg (clock pg) (or_default [] (m_selector p)) of
              Inl e \<Rightarrow> Inl e
            | Inr [] \<Rightarrow> Inr []
            | Inr (el # _) \<Rightarrow> Inr (outerHTML (nodes pg el)))
      else Inr (doc_html pg))"

definition get_html :: "message \<Rightarrow> page \<Rightarrow> outcome \<times> page" where
  "get_html p pg =
     (let max_len = or_default 500000 (m_max_len p)
      in case markup p pg of
           Inl e \<Rightarrow> (Inl e, pg)
         | Inr html \<Rightarrow>
             (let truncated = int (length html) > max_len;
                  out = (if truncated then slice0 html max_len else html)
              in (Inr [(''html'', JStr out), (''truncated'', JBool truncated),
                       (''length'', JNum (of_nat (length html)))], pg)))"

text \<open>
  \<^verbatim>\<open>exec_js\<close> hands the text to \<^verbatim>\<open>new Function\<close>. What the script evaluates to
  is given by the page: a value that survives \<^verbatim>\<open>JSON.parse(JSON.stringify(result))\<close>,
  a value that does not (with its \<^verbatim>\<open>String(result)\<close>), or an exception (with
  \<^verbatim>\<open>e?.message || String(e)\<close>). The script is taken to return, and what it does to
  the document is not recorded.
\<close>

definition function_body :: "string option \<Rightarrow> string" where
  "function_body js = [CHR 0x22] @ ''use strict'' @ [CHR 0x22] @ ''; return ('' @ str_text js @ '')''"

definition exec_js :: "message \<Rightarrow> page \<Rightarrow> outcome \<times> page" where
  "exec_js p pg =
     (case script pg (function_body (m_js p)) of
        Returned v \<Rightarrow> (Inr [(''result'', v)], pg)
      | Unserialisable s \<Rightarrow> (Inr [(''result'', JStr s)], pg)
      | Thrown m \<Rightarrow> (Inl (''exec_js error: '' @ m), pg))"

subsection \<open>xpath\<close>

definition evalSnapshot :: "page \<Rightarrow> string \<Rightarrow> (string + nat list) \<times> page" where
  "evalSnapshot pg xp =
     (case xpath_eval pg (clock pg) xp of
        Inl m \<Rightarrow> Inl (''Invalid XPath: '' @ m)
      | Inr snap \<Rightarrow> Inr snap,
      pg\<lparr>eval_log := eval_log pg @ [clock pg]\<rparr>)"

function waitForIndex :: "page \<Rightarrow> int \<Rightarrow> string \<Rightarrow> int \<Rightarrow> int \<Rightarrow> (string + nat list) \<times> page" where
  "waitForIndex pg start xp idx timeout =
     (if clock pg - start < timeout then
        (case evalSnapshot pg xp of
           (Inl e, pg1) \<Rightarrow> (Inl e, pg1)
         | (Inr snap, pg1) \<Rightarrow>
             if int (length snap) > idx then (Inr snap, pg1)
             else waitForIndex (sleep 100 pg1) start xp idx timeout)
      else evalSnapshot pg xp)"
  by pat_completeness auto
termination
  by (relation "measure (\<lambda>(pg, start, xp, idx, timeout). nat (start + timeout - clock pg))")
     (auto simp: sleep_def evalSnapshot_def)

text \<open>
  To describe the polling: the moments \<open>start, start + 100, \<dots>, start + 100 * k\<close>; whether
  the loop, entered at \<open>clock pg\<close>, ends its wait after \<open>elapsed\<close> ms (the timeout has
  passed, or the snapshot of that moment is large enough or fails); and the outcome of
  the evaluation at that moment.
\<close>

definition poll_times :: "int \<Rightarrow> nat \<Rightarrow> int list" where
  "poll_times start k = map (\<lambda>i. start + 100 * int i) [0..<Suc k]"

definition polling_stops :: "page \<Rightarrow> string \<Rightarrow> int \<Rightarrow> int \<Rightarrow> int \<Rightarrow> bool" where
  "polling_stops pg xp idx timeout elapsed =
     (timeout \<le> elapsed \<or>
      (case xpath_eval pg (clock pg + elapsed) xp of
         Inl m \<Rightarrow> True
       | Inr snap \<Rightarrow> idx < int (length snap)))"

definition snapshot_at :: "page \<Rightarrow> string \<Rightarrow> int \<Rightarrow> string + nat list" where
  "snapshot_at pg xp elapsed =
     (case xpath_eval pg (clock pg + elapsed) xp of
        Inl m \<Rightarrow> Inl (''Invalid XPath: '' @ m)
      | Inr snap \<Rightarrow> Inr snap)"

definition or_null :: "string \<Rightarrow> json" where
  "or_null s = (if s = [] then JNull else JStr s)"

definition summarizeNode :: "bool \<Rightarrow> int \<Rightarrow> node \<Rightarrow> json" where
  "summarizeNode includeHTML max_len n =
     (case kind n of
        ElementNode \<Rightarrow>
          JObj ([(''nodeType'', JStr ''element''),
                 (''tag'', JStr (tagName n)),
                 (''id'', or_null (ident n)),
                 (''classes'', or_null (className n)),
                 (''name'', or_null (or_default [] (map_of (attributes n) ''name''))),
                 (''value'', (case val n of None \<Rightarrow> JNull | Some v \<Rightarrow> JStr v)),
                 (''rect'', JObj [(''x'', JNum (rect_x n)), (''y'', JNum (rect_y n)),
                                  (''width'', JNum (rect_width n)), (''height'', JNum (rect_height n))])]
                @ (if includeHTML
                   then [(''html'', JStr (if int (length (outerHTML n)) > max_len
                                          then slice0 (outerHTML n) max_len else outerHTML n)),
                         (''html_truncated'', JBool (int (length (outerHTML n)) > max_len))]
                   else []))
      | TextNode \<Rightarrow>
          JObj [(''nodeType'', JStr ''text''), (''text'', JStr (take 200 (or_default [] (textContent n))))]
      | OtherNode \<Rightarrow>
          JObj [(''nodeType'', JStr ''other''), (''nodeName'', JStr (nodeName n))])"

definition needsIndex :: "string \<Rightarrow> bool" where
  "needsIndex action =
     (action \<in> set [''click'', ''getAttribute'', ''getHTML'', ''getText'', ''setValue'', ''type''])"

text \<open>\<^verbatim>\<open>nth(idx)\<close>; \<^verbatim>\<open>snapshotItem\<close> gives \<^verbatim>\<open>null\<close> for an index out of range.\<close>

definition nth_node :: "nat list \<Rightarrow> int \<Rightarrow> nat option" where
  "nth_node snap idx = (if idx \<ge> int (length snap) then None else item snap idx)"

definition ensureElement :: "page \<Rightarrow> nat option \<Rightarrow> string + nat" where
  "ensureElement pg node =
     (case node of
        None \<Rightarrow> Inl ''Target is not an element node''
      | Some el \<Rightarrow>
          if kind (nodes pg el) \<noteq> ElementNode then Inl ''Target is not an element node''
          else Inr el)"

text \<open>The \<^verbatim>\<open>switch (action)\<close>, on the snapshot already taken.\<close>

definition xpath_action :: "message \<Rightarrow> string \<Rightarrow> nat list \<Rightarrow> page \<Rightarrow> outcome \<times> page" where
  "xpath_action p action snap pg =
     (let index = or_default 0 (m_index p);
          text = or_default [] (m_text p);
          clear = or_default True (m_clear p);
          enter = or_default False (m_enter p);
          max_len = or_default 500000 (m_max_len p);
          count = length snap
      in if action = ''list'' then
           (Inr [(''count'', JNum (of_nat count)),
                 (''nodes'', JArr (map (\<lambda>i. summarizeNode (or_default False (m_includeHTML p)) max_len (nodes pg i))
                                    (take (nat (min (int count) (max 0 (or_default 10 (m_max p))))) snap)))], pg)
         else if action = ''exists'' then (Inr [(''exists'', JBool (count > 0))], pg)
         else if action = ''count'' then (Inr [(''count'', JNum (of_nat count))], pg)
         else if action = ''click'' then
           (case ensureElement pg (nth_node snap index) of
              Inl e \<Rightarrow> (Inl e, pg)
            | Inr el \<Rightarrow> (Inr [(''clicked'', JBool True)], mouse_sequence el pg))
         else if action = ''getAttribute'' then
           (if or_default [] (m_attr p) = [] then (Inl (''getAttribute requires '' @ [CHR 0x22] @ ''attr'' @ [CHR 0x22]), pg)
            else case ensureElement pg (nth_node snap index) of
                   Inl e \<Rightarrow> (Inl e, pg)
                 | Inr el \<Rightarrow>
                     (Inr [(''value'', (case map_of (attributes (nodes pg el)) (or_default [] (m_attr p)) of
                                          None \<Rightarrow> JNull | Some v \<Rightarrow> JStr v))], pg))
         else if action = ''getHTML'' then
           (case ensureElement pg (nth_node snap index) of
              Inl e \<Rightarrow> (Inl e, pg)
            | Inr el \<Rightarrow>
                (let html = outerHTML (nodes pg el)
                 in if html = [] then (Inr [(''html'', JObj []), (''truncated'', JBool False)], pg)
                    else (Inr [(''html'', JStr (if int (length html) > max_len then slice0 html max_len else html)),
                               (''truncated'', JBool (int (length html) > max_len)),
                               (''length'', JNum (of_nat (length html)))], pg)))
         else if action = ''getText'' then
           (case nth_node snap index of
              None \<Rightarrow> (Inl ''No node at index'', pg)
            | Some n \<Rightarrow>
                (let txt = or_default [] (textContent (nodes pg n))
                 in (Inr [(''text'', JStr txt), (''length'', JNum (of_nat (length txt)))], pg)))
         else if action = ''setValue'' then
           (case nth_node snap index of
              None \<Rightarrow> (Inl ''No node at index'', pg)
            | Some n \<Rightarrow>
                (Inr [(''set'', JBool True)],
                 if kind (nodes pg n) = ElementNode \<and> val (nodes pg n) \<noteq> None
                 then dispatch n Change (dispatch n (InputEv (Some text)) (set_val n text pg))
                 else set_textContent n text pg))
         else if action = ''type'' then
           (case ensureElement pg (nth_node snap index) of
              Inl e \<Rightarrow> (Inl e, pg)
            | Inr el \<Rightarrow> (Inr (typed text), type_into el text clear enter pg))
         else (Inl (''Unknown xpath action: '' @ action), pg))"

definition xpath :: "message \<Rightarrow> page \<Rightarrow> outcome \<times> page" where
  "xpath p pg =
     (case m_expr p of
        Some (JStr expr) \<Rightarrow>
          if expr = [] then (Inl (''xpath: missing '' @ [CHR 0x22] @ ''expr'' @ [CHR 0x22]), pg)
          else
            (let action = or_default ''list'' (m_action p)
             in case (if needsIndex action
                      then waitForIndex pg (clock pg) expr (or_default 0 (m_index p))
                             (or_default 2000 (m_timeout_ms p))
                      else evalSnapshot pg expr) of
                  (Inl e, pg1) \<Rightarrow> (Inl e, pg1)
                | (Inr snap, pg1) \<Rightarrow> xpath_action p action snap pg1)
      | _ \<Rightarrow> (Inl (''xpath: missing '' @ [CHR 0x22] @ ''expr'' @ [CHR 0x22]), pg))"

section \<open>The browser\<close>

text \<open>
  What the service worker sees of the browser. \<open>stored\<close> is the entry
  \<^verbatim>\<open>ws_dom_ctrl.lastTabId\<close> of \<^verbatim>\<open>chrome.storage.session\<close>, the remembered tab.
  \<open>active\<close> is the id of the first tab that
  \<^verbatim>\<open>chrome.tabs.query({ active: true, lastFocusedWindow: true })\<close> returns, when there
  is one and it has an id. \<open>next_tab\<close> is the id \<^verbatim>\<open>chrome.tabs.create\<close> assigns
  next, and \<open>web\<close> the document a URL loads (\<open>Inl\<close>: a page that refuses injected
  scripts, with the message of the refusal). \<open>loading t k\<close> is what the \<open>k\<close>-th tick of
  the 250 ms timer of \<^verbatim>\<open>waitForTabLoad\<close> finds for tab \<open>t\<close>. The calls of
  \<^verbatim>\<open>chrome.storage\<close> and \<^verbatim>\<open>chrome.tabs.create\<close> succeed, and no tab is closed
  while a command runs.
\<close>

record tab =
  discarded :: bool
  tab_url :: "string option"
  content :: "string + page"

datatype load_obs = Loading | CompleteEvent | CompletePolled

record world =
  stored :: "int option"
  tabs :: "int \<Rightarrow> tab option"
  active :: "int option"
  next_tab :: int
  web :: "string \<Rightarrow> string + page"
  loading :: "int \<Rightarrow> nat \<Rightarrow> load_obs"
  worker_up :: bool
  uuid_source :: "nat \<Rightarrow> string"
  uuid_count :: nat

definition getStoredTabId :: "world \<Rightarrow> int option" where
  "getStoredTabId w = stored w"

definition setStoredTabId :: "int \<Rightarrow> world \<Rightarrow> world" where
  "setStoredTabId tabId w = w\<lparr>stored := Some tabId\<rparr>"

definition no_tab :: "int \<Rightarrow> string" where
  "no_tab tabId = ''No tab with id: '' @ dec tabId @ ''.''"

definition chrome_tabs_get :: "int \<Rightarrow> world \<Rightarrow> string + tab" where
  "chrome_tabs_get tabId w = (case tabs w tabId of None \<Rightarrow> Inl (no_tab tabId) | Some t \<Rightarrow> Inr t)"

definition chrome_tabs_create :: "string \<Rightarrow> world \<Rightarrow> int \<times> world" where
  "chrome_tabs_create url w =
     (next_tab w,
      w\<lparr>tabs := (tabs w)(next_tab w \<mapsto> \<lparr>discarded = False, tab_url = Some url, content = web w url\<rparr>),
        active := Some (next_tab w),
        next_tab := next_tab w + 1\<rparr>)"

text \<open>The tab that \<^verbatim>\<open>chrome.tabs.create({ url: 'about:blank', active: true })\<close> makes.\<close>

definition blank_tab :: "world \<Rightarrow> tab" where
  "blank_tab w = \<lparr>discarded = False, tab_url = Some ''about:blank'', content = web w ''about:blank''\<rparr>"

definition chrome_tabs_update :: "int \<Rightarrow> string \<Rightarrow> world \<Rightarrow> string + world" where
  "chrome_tabs_update tabId url w =
     (case tabs w tabId of
        None \<Rightarrow> Inl (no_tab tabId)
      | Some t \<Rightarrow>
          Inr (w\<lparr>tabs := (tabs w)(tabId \<mapsto> \<lparr>discarded = False, tab_url = Some url, content = web w url\<rparr>)\<rparr>))"

text \<open>
  \<^verbatim>\<open>resolveTargetTabId\<close>. The stored id counts when \<^verbatim>\<open>chrome.tabs.get\<close> finds the
  tab and it is not discarded; \<^verbatim>\<open>if (active?.id)\<close> tests the id for truthiness, so an
  id of 0 is passed over.
\<close>

definition stored_usable :: "world \<Rightarrow> int option" where
  "stored_usable w =
     (case getStoredTabId w of
        None \<Rightarrow> None
      | Some s \<Rightarrow>
          (case chrome_tabs_get s w of
             Inl e \<Rightarrow> None
           | Inr t \<Rightarrow> if \<not> discarded t then Some s else None))"

definition resolveTargetTabId :: "json option \<Rightarrow> world \<Rightarrow> int \<times> world" where
  "resolveTargetTabId preferredId w =
     (case isInteger preferredId of
        Some n \<Rightarrow> (n, w)
      | None \<Rightarrow>
          (case stored_usable w of
             Some s \<Rightarrow> (s, w)
           | None \<Rightarrow>
               if or_default 0 (active w) \<noteq> 0
               then (or_default 0 (active w), setStoredTabId (or_default 0 (active w)) w)
               else (case chrome_tabs_create ''about:blank'' w of
                       (t, w1) \<Rightarrow> (t, setStoredTabId t w1))))"

text \<open>
  \<^verbatim>\<open>waitForTabLoad\<close>, by the ticks of its timer, the \<open>k\<close>-th after \<open>250 * k\<close> ms.
  An \<^verbatim>\<open>onUpdated\<close> event with status \<^verbatim>\<open>complete\<close> that came before the tick has
  resolved the promise; otherwise the tick rejects once the timeout has passed, and else
  asks \<^verbatim>\<open>chrome.tabs.get\<close>. \<open>True\<close>: resolved; \<open>False\<close>: rejected.
\<close>

function wait_ticks :: "(nat \<Rightarrow> load_obs) \<Rightarrow> int \<Rightarrow> nat \<Rightarrow> bool" where
  "wait_ticks obs timeoutMs k =
     (if obs k = CompleteEvent then True
      else if 250 * int k > timeoutMs then False
      else if obs k = CompletePolled then True
      else wait_ticks obs timeoutMs (Suc k))"
  by pat_completeness auto
termination
  by (relation "measure (\<lambda>(obs, timeoutMs, k). nat (timeoutMs div 250 + 1) - k)") auto

definition waitForTabLoad :: "int \<Rightarrow> int \<Rightarrow> world \<Rightarrow> string + unit" where
  "waitForTabLoad tabId timeoutMs w =
     (if wait_ticks (loading w tabId) timeoutMs 1 then Inr ()
      else Inl ''Timeout waiting for tab to load'')"

text \<open>
  \<^verbatim>\<open>runInPage\<close>: \<^verbatim>\<open>chrome.scripting.executeScript\<close> fails when the tab is gone or
  refuses scripts; an exception of the injected function comes back with its message.
\<close>

definition runInPage :: "int \<Rightarrow> (page \<Rightarrow> outcome \<times> page) \<Rightarrow> world \<Rightarrow> outcome \<times> world" where
  "runInPage tabId func w =
     (case tabs w tabId of
        None \<Rightarrow> (Inl (no_tab tabId), w)
      | Some t \<Rightarrow>
          (case content t of
             Inl e \<Rightarrow> (Inl e, w)
           | Inr pg \<Rightarrow>
               (case func pg of
                  (r, pg1) \<Rightarrow> (r, w\<lparr>tabs := (tabs w)(tabId \<mapsto> t\<lparr>content := Inr pg1\<rparr>)\<rparr>))))"

subsection \<open>nav\<close>

text \<open>The tab to navigate: resolved and updated with \<^verbatim>\<open>reuse\<close>, created without.\<close>

definition nav_target :: "message \<Rightarrow> world \<Rightarrow> (string + int) \<times> world" where
  "nav_target payload w =
     (let url = (if or_default [] (m_url payload) \<noteq> [] then or_default [] (m_url payload)
                 else ''about:blank'')
      in if or_default True (m_reuse payload)
         then (case resolveTargetTabId None w of
                 (maybe, w1) \<Rightarrow>
                   (case chrome_tabs_update maybe url w1 of
                      Inl e \<Rightarrow> (Inl e, w1)
                    | Inr w2 \<Rightarrow> (Inr maybe, w2)))
         else (case chrome_tabs_create url w of (t, w1) \<Rightarrow> (Inr t, w1)))"

definition nav_url :: "tab \<Rightarrow> message \<Rightarrow> json" where
  "nav_url t payload =
     (if or_default [] (tab_url t) \<noteq> [] then JStr (or_default [] (tab_url t))
      else if or_default [] (m_url payload) \<noteq> [] then JStr (or_default [] (m_url payload))
      else JNull)"

definition nav :: "message \<Rightarrow> world \<Rightarrow> outcome \<times> world" where
  "nav payload w =
     (case nav_target payload w of
        (Inl e, w1) \<Rightarrow> (Inl e, w1)
      | (Inr tabId, w1) \<Rightarrow>
          (let w2 = setStoredTabId tabId w1
           in case waitForTabLoad tabId 30000 w2 of
                Inl e \<Rightarrow> (Inl e, w2)
              | Inr _ \<Rightarrow>
                  (case chrome_tabs_get tabId w2 of
                     Inl e \<Rightarrow> (Inl e, w2)
                   | Inr t \<Rightarrow>
                       (Inr [(''tabId'', JNum (of_int tabId)), (''url'', nav_url t payload),
                             (''ok'', JBool True)], w2))))"

section \<open>The dispatcher (service worker)\<close>

definition handler_names :: "string list" where
  "handler_names = [''nav'', ''click'', ''type'', ''set'', ''exists'', ''get_html'', ''exec_js'', ''xpath'']"

text \<open>
  \<^verbatim>\<open>handlers\<close> is an object literal, so \<^verbatim>\<open>handlers[cmd]\<close> also finds what it
  inherits from \<^verbatim>\<open>Object.prototype\<close>.
\<close>

definition object_prototype :: "string list" where
  "object_prototype = [''constructor'', ''__defineGetter__'', ''__defineSetter__'', ''hasOwnProperty'',
     ''__lookupGetter__'', ''__lookupSetter__'', ''isPrototypeOf'', ''propertyIsEnumerable'',
     ''toString'', ''valueOf'', ''__proto__'', ''toLocaleString'']"

definition handlers_has :: "string \<Rightarrow> bool" where
  "handlers_has key = (key \<in> set handler_names \<or> key \<in> set object_prototype)"

text \<open>The properties of the payload that are present, for \<^verbatim>\<open>{ ...payload }\<close>.\<close>

definition opt_field :: "string \<Rightarrow> ('a \<Rightarrow> json) \<Rightarrow> 'a option \<Rightarrow> (string \<times> json) list" where
  "opt_field k f v = (case v of None \<Rightarrow> [] | Some x \<Rightarrow> [(k, f x)])"

definition message_fields :: "message \<Rightarrow> (string \<times> json) list" where
  "message_fields m =
     opt_field ''id'' (\<lambda>v. v) (m_id m) @ opt_field ''cmd'' JStr (m_cmd m)
     @ opt_field ''tabId'' (\<lambda>v. v) (m_tabId m) @ opt_field ''url'' JStr (m_url m)
     @ opt_field ''reuse'' JBool (m_reuse m) @ opt_field ''selector'' JStr (m_selector m)
     @ opt_field ''index'' (\<lambda>i. JNum (of_int i)) (m_index m)
     @ opt_field ''timeout_ms'' (\<lambda>i. JNum (of_int i)) (m_timeout_ms m)
     @ opt_field ''text'' JStr (m_text m) @ opt_field ''clear'' JBool (m_clear m)
     @ opt_field ''enter'' JBool (m_enter m) @ opt_field ''value'' JStr (m_value m)
     @ opt_field ''attr'' JStr (m_attr m)
     @ opt_field ''max_len'' (\<lambda>i. JNum (of_int i)) (m_max_len m)
     @ opt_field ''js'' JStr (m_js m) @ opt_field ''expr'' (\<lambda>v. v) (m_expr m)
     @ opt_field ''action'' JStr (m_action m)
     @ opt_field ''max'' (\<lambda>i. JNum (of_int i)) (m_max m)
     @ opt_field ''includeHTML'' JBool (m_includeHTML m)"

text \<open>The properties a string spreads into: its characters, by position.\<close>

definition chars_of :: "string \<Rightarrow> (string \<times> json) list" where
  "chars_of s = map (\<lambda>i. (dec (int i), JStr [s ! i])) [0..<length s]"

text \<open>
  \<^verbatim>\<open>handlers[cmd](payload, tabId)\<close> for an inherited member, as the properties its
  value spreads into: \<^verbatim>\<open>constructor\<close> is \<^verbatim>\<open>Object\<close> and returns the payload;
  \<^verbatim>\<open>toString\<close> returns \<^verbatim>\<open>"[object Object]"\<close>; \<^verbatim>\<open>__proto__\<close> is not a
  function; the others return a boolean, \<^verbatim>\<open>undefined\<close> or \<^verbatim>\<open>handlers\<close> itself
  (whose functions do not survive the message channel), or throw for want of a function
  argument. The messages are V8's.
\<close>

definition inherited :: "string \<Rightarrow> message \<Rightarrow> outcome" where
  "inherited key payload =
     (if key = ''constructor'' then Inr (message_fields payload)
      else if key = ''toString'' \<or> key = ''toLocaleString'' then Inr (chars_of ''[object Object]'')
      else if key = ''__proto__'' then Inl ''handlers[cmd] is not a function''
      else if key = ''__defineGetter__'' \<or> key = ''__defineSetter__''
      then Inl (''Object.prototype.'' @ key @ '': Expecting function'')
      else Inr [])"

definition call_handler :: "string \<Rightarrow> message \<Rightarrow> int \<Rightarrow> world \<Rightarrow> outcome \<times> world" where
  "call_handler key payload tabId w =
     (if key = ''nav'' then nav payload w
      else if key = ''click'' then runInPage tabId (click payload) w
      else if key = ''type'' then runInPage tabId (type payload) w
      else if key = ''set'' then runInPage tabId (set_h payload) w
      else if key = ''exists'' then runInPage tabId (exists_h payload) w
      else if key = ''get_html'' then runInPage tabId (get_html payload) w
      else if key = ''exec_js'' then runInPage tabId (exec_js payload) w
      else if key = ''xpath'' then runInPage tabId (xpath payload) w
      else (inherited key payload, w))"

record request =
  r_type :: string
  r_id :: json
  r_cmd :: "string option"
  r_payload :: message

type_synonym envelope = "(string \<times> json) list"

definition success :: "json \<Rightarrow> json \<Rightarrow> envelope" where
  "success i r = [(''id'', i), (''ok'', JBool True), (''result'', r)]"

definition failure :: "json \<Rightarrow> string \<Rightarrow> envelope" where
  "failure i m = [(''id'', i), (''ok'', JBool False), (''error'', JStr m)]"

text \<open>\<^verbatim>\<open>e?.message || String(e)\<close> of an \<^verbatim>\<open>Error\<close> with message \<open>m\<close>.\<close>

definition error_text :: "string \<Rightarrow> string" where
  "error_text m = (if m = [] then ''Error'' else m)"

text \<open>
  The listener of \<^verbatim>\<open>chrome.runtime.onMessage\<close>; \<open>None\<close>: it returned without
  answering.
\<close>

definition listener :: "request \<Rightarrow> world \<Rightarrow> envelope option \<times> world" where
  "listener msg w =
     (if r_type msg \<noteq> ''cmd'' then (None, w)
      else if \<not> handlers_has (str_text (r_cmd msg))
      then (Some (failure (r_id msg) (error_text (''Unknown cmd: '' @ str_text (r_cmd msg)))), w)
      else
        (case resolveTargetTabId (m_tabId (r_payload msg)) w of
           (tabId, w1) \<Rightarrow>
             if r_cmd msg = Some ''nav'' then
               (case nav (r_payload msg) w1 of
                  (Inl e, w2) \<Rightarrow> (Some (failure (r_id msg) (error_text e)), w2)
                | (Inr res, w2) \<Rightarrow> (Some (success (r_id msg) (JObj res)), w2))
             else
               (case call_handler (str_text (r_cmd msg)) (r_payload msg) tabId w1 of
                  (Inl e, w2) \<Rightarrow> (Some (failure (r_id msg) (error_text e)), w2)
                | (Inr res, w2) \<Rightarrow>
                    (Some (success (r_id msg) (JObj (spread [(''tabId'', JNum (of_int tabId))] res))),
                     w2))))"

section \<open>The correlator (offscreen document)\<close>

text \<open>
  What \<^verbatim>\<open>JSON.parse(event.data)\<close> gives: a \<^verbatim>\<open>SyntaxError\<close>, \<^verbatim>\<open>null\<close>, or a
  value whose properties can be read (a value that is not an object has none of them).
\<close>

datatype parsed = SyntaxError | Null | Object message

text \<open>
  Everything that crosses \<^verbatim>\<open>chrome.runtime\<close> messaging or the socket is serialised
  as JSON: an envelope, and the raw values of a request.
\<close>

definition wire :: "envelope \<Rightarrow> envelope" where
  "wire env = map (map_prod id stringify) env"

definition serialise :: "request \<Rightarrow> request" where
  "serialise req =
     req\<lparr>r_id := stringify (r_id req),
         r_payload := (r_payload req)
           \<lparr>m_id := map_option stringify (m_id (r_payload req)),
            m_tabId := map_option stringify (m_tabId (r_payload req)),
            m_expr := map_option stringify (m_expr (r_payload req))\<rparr>\<rparr>"

definition randomUUID :: "world \<Rightarrow> string \<times> world" where
  "randomUUID w = (uuid_source w (uuid_count w), w\<lparr>uuid_count := Suc (uuid_count w)\<rparr>)"

text \<open>
  \<^verbatim>\<open>chrome.runtime.sendMessage\<close> with its callback: \<open>Inl\<close> is the message of
  \<^verbatim>\<open>chrome.runtime.lastError\<close>, set when nobody listens or nobody answers.
\<close>

definition sendMessage :: "request \<Rightarrow> world \<Rightarrow> (string + envelope) \<times> world" where
  "sendMessage req w =
     (if \<not> worker_up w
      then (Inl ''Could not establish connection. Receiving end does not exist.'', w)
      else (case listener (serialise req) w of
              (None, w1) \<Rightarrow> (Inl ''The message port closed before a response was received.'', w1)
            | (Some response, w1) \<Rightarrow> (Inr (wire response), w1)))"

text \<open>
  \<^verbatim>\<open>ws.onmessage\<close>: the envelopes sent with
  \<^verbatim>\<open>ws.send(JSON.stringify(\<dots>))\<close>, in order, as they read on the wire. On
  \<^verbatim>\<open>null\<close> reading \<^verbatim>\<open>msg.id\<close> throws and nothing is sent.
\<close>

definition onmessage :: "parsed \<Rightarrow> world \<Rightarrow> envelope list \<times> world" where
  "onmessage data w =
     (case data of
        SyntaxError \<Rightarrow> ([wire (failure JNull ''Invalid JSON received'')], w)
      | Null \<Rightarrow> ([], w)
      | Object msg \<Rightarrow>
          (case (if truthy (m_id msg) then (or_default JNull (m_id msg), w)
                 else (case randomUUID w of (u, w1) \<Rightarrow> (JStr u, w1))) of
             (i, w1) \<Rightarrow>
               if m_cmd msg = Some ''ping'' then ([wire (success i (JStr ''pong''))], w1)
               else
                 (case sendMessage \<lparr>r_type = ''cmd'', r_id = i, r_cmd = m_cmd msg, r_payload = msg\<rparr> w1 of
                    (Inl e, w2) \<Rightarrow> ([wire (failure i e)], w2)
                  | (Inr response, w2) \<Rightarrow> ([wire response], w2))))"

definition onopen :: "world \<Rightarrow> envelope list \<times> world" where
  "onopen w =
     (case randomUUID w of
        (u, w1) \<Rightarrow>
          ([wire [(''id'', JStr u), (''ok'', JBool True), (''hello'', JStr ''ws-dom-controller-online'')]],
           w1))"

section \<open>Concrete inputs\<close>

text \<open>
  A small document: one heading, and one text input that appears after 150 ms. The input
  drops line feeds and carriage returns from what is assigned to its value; no script of
  the page listens.
\<close>

definition strip_newlines :: "string \<Rightarrow> string" where
  "strip_newlines s = filter (\<lambda>c. c \<noteq> CHR 0x0A \<and> c \<noteq> CHR 0x0D) s"

definition blank_node :: node where
  "blank_node = \<lparr>kind = OtherNode, tagName = [], ident = [], className = [], attributes = [],
     val = None, sanitize = (\<lambda>s. s), outerHTML = [], textContent = None, nodeName = ''#document'',
     rect_x = 0, rect_y = 0, rect_width = 0, rect_height = 0\<rparr>"

definition heading :: node where
  "heading = blank_node\<lparr>kind := ElementNode, tagName := ''H1'', outerHTML := ''<h1>Hello</h1>'',
     textContent := Some ''Hello'', nodeName := ''H1'', rect_width := 100, rect_height := 20\<rparr>"

definition query_box :: node where
  "query_box = blank_node\<lparr>kind := ElementNode, tagName := ''INPUT'', ident := ''q'',
     attributes := [(''name'', ''q'')], val := Some ''old'', sanitize := strip_newlines, outerHTML := ''<input id=q name=q>'',
     textContent := Some [], nodeName := ''INPUT'', rect_width := 80, rect_height := 10\<rparr>"

definition demo_page :: page where
  "demo_page = \<lparr>clock = 0,
     doc_html = ''<html><h1>Hello</h1><input id=q name=q></html>'',
     css = (\<lambda>t sel. if sel = ''h1'' then Inr [0]
                     else if sel = ''#q'' then (if t < 150 then Inr [] else Inr [1])
                     else if sel = ''h1['' then Inl ''not a valid selector''
                     else Inr []),
     xpath_eval = (\<lambda>t xp. if xp = ''//h1'' then Inr [0]
                     else if xp = ''//input'' then (if t < 150 then Inr [] else Inr [1])
                     else if xp = ''//['' then Inl ''not a valid XPath expression''
                     else Inr []),
     nodes = (\<lambda>i. if i = 0 then heading else if i = 1 then query_box else blank_node),
     listeners = (\<lambda>el ev ns. ns),
     events = [],
     eval_log = [],
     script = (\<lambda>src. if src = function_body (Some ''document.title'') then Returned (JStr ''Demo'')
                     else Thrown ''Unexpected token'')\<rparr>"

text \<open>A browser with one tab (id 7) showing that document; the remembered tab is not set.\<close>

definition demo_tab :: tab where
  "demo_tab = \<lparr>discarded = False, tab_url = Some ''https://example.org/'', content = Inr demo_page\<rparr>"

definition demo_world :: world where
  "demo_world = \<lparr>stored = None,
     tabs = (\<lambda>i. if i = 7 then Some demo_tab else None),
     active = Some 7,
     next_tab = 8,
     web = (\<lambda>u. if u = ''chrome://settings/'' then Inl ''Cannot access a chrome:// URL''
                else Inr demo_page),
     loading = (\<lambda>t k. if t = 7 \<and> 3 \<le> k then CompletePolled else Loading),
     worker_up = True,
     uuid_source = (\<lambda>n. ''3b241101-e2bb-4255-8caf-4136c566a962''),
     uuid_count = 0\<rparr>"

text \<open>
  Two navigations to \<^verbatim>\<open>https://example.org\<close>: one into a fresh tab, which in this
  browser never finishes loading, and one reusing the active tab, which is complete at
  the third tick. With each, the browser as it is once the navigation has been issued.
\<close>

definition nav_fresh :: message where
  "nav_fresh = no_fields\<lparr>m_id := Some (JStr ''1''), m_cmd := Some ''nav'',
     m_url := Some ''https://example.org'', m_reuse := Some False\<rparr>"

definition nav_fresh_world :: world where
  "nav_fresh_world = demo_world\<lparr>stored := Some 7,
     tabs := (tabs demo_world)(8 \<mapsto> \<lparr>discarded = False, tab_url = Some ''https://example.org'',
                                     content = Inr demo_page\<rparr>),
     active := Some 8, next_tab := 9\<rparr>"

definition nav_reuse :: message where
  "nav_reuse = no_fields\<lparr>m_id := Some (JStr ''1''), m_cmd := Some ''nav'',
     m_url := Some ''https://example.org''\<rparr>"

definition nav_reuse_world :: world where
  "nav_reuse_world = demo_world\<lparr>stored := Some 7,
     tabs := (tabs demo_world)(7 \<mapsto> \<lparr>discarded = False, tab_url = Some ''https://example.org'',
                                     content = Inr demo_page\<rparr>)\<rparr>"


text \<open>Counting paragraphs (there are none), and reading an attribute of the input.\<close>

definition xp_count :: message where
  "xp_count = no_fields\<lparr>m_id := Some (JStr ''3''), m_cmd := Some ''xpath'', m_expr := Some (JStr ''//p''),
     m_action := Some ''count''\<rparr>"

definition xp_attr :: message where
  "xp_attr = no_fields\<lparr>m_id := Some (JStr ''4''), m_cmd := Some ''xpath'', m_expr := Some (JStr ''//input''),
     m_action := Some ''getAttribute'', m_attr := Some ''name''\<rparr>"

text \<open>
  Messages for the correlator: a ping whose id is the empty string, a check for the
  heading, and a command named after a member of \<^verbatim>\<open>Object.prototype\<close>.
\<close>

definition ping_empty_id :: message where
  "ping_empty_id = no_fields\<lparr>m_id := Some (JStr []), m_cmd := Some ''ping''\<rparr>"

definition exists_h1 :: message where
  "exists_h1 = no_fields\<lparr>m_id := Some (JStr ''2''), m_cmd := Some ''exists'', m_selector := Some ''h1''\<rparr>"

definition inherited_cmd :: message where
  "inherited_cmd = no_fields\<lparr>m_id := Some (JStr ''1''), m_cmd := Some ''hasOwnProperty''\<rparr>"

text \<open>
  The browser with a remembered tab 5 that has been discarded; a text with a line feed
  for the input; a ping whose id was too large for a double; and a command named
  \<^verbatim>\<open>constructor\<close> that brings a \<^verbatim>\<open>tabId\<close> of its own.
\<close>

definition discarded_world :: world where
  "discarded_world = demo_world\<lparr>stored := Some 5,
     tabs := (tabs demo_world)(5 \<mapsto> demo_tab\<lparr>discarded := True\<rparr>)\<rparr>"


definition ping_inf_id :: message where
  "ping_inf_id = no_fields\<lparr>m_id := Some (JInf True), m_cmd := Some ''ping''\<rparr>"

definition ctor_cmd :: message where
  "ctor_cmd = no_fields\<lparr>m_id := Some (JStr ''1''), m_cmd := Some ''constructor'',
     m_tabId := Some (JStr ''x'')\<rparr>"

section \<open>Properties of the page handlers\<close>

text \<open>
  C5. \<^verbatim>\<open>get_html\<close> with \<^verbatim>\<open>max_len = N\<close>, \<open>N\<close> a length: the result carries
  the first \<open>N\<close> characters of the markup, the flag \<^verbatim>\<open>truncated\<close> says whether the
  markup is longer than \<open>N\<close>, and \<^verbatim>\<open>length\<close> is the length of the whole markup.
  On markup longer than \<open>N\<close> the string returned has length exactly \<open>N\<close>; on markup of
  length at most \<open>N\<close> it is the whole markup. The document is left as it was.
\<close>

theorem get_html_max_len:
  assumes "markup p pg = Inr html" and "m_max_len p = Some (int N)"
  shows "get_html p pg =
           (Inr [(''html'', JStr (take N html)), (''truncated'', JBool (N < length html)),
                 (''length'', JNum (of_nat (length html)))], pg)
         \<and> (N < length html \<longrightarrow> length (take N html) = N)
         \<and> (length html \<le> N \<longrightarrow> take N html = html)"
  using assms by (simp add: get_html_def or_default_def slice0_def Let_def)

theorem get_html_max_len_witness:
  "markup (no_fields\<lparr>m_selector := Some ''h1'', m_max_len := Some (int 3)\<rparr>) demo_page = Inr ''<h1>Hello</h1>''
   \<and> (3::nat) < length ''<h1>Hello</h1>''
   \<and> get_html (no_fields\<lparr>m_selector := Some ''h1'', m_max_len := Some (int 3)\<rparr>) demo_page =
         (Inr [(''html'', JStr ''<h1''), (''truncated'', JBool True), (''length'', JNum 14)], demo_page)
   \<and> markup (no_fields\<lparr>m_selector := Some ''h1'', m_max_len := Some (int 20)\<rparr>) demo_page = Inr ''<h1>Hello</h1>''
   \<and> length ''<h1>Hello</h1>'' \<le> (20::nat)
   \<and> get_html (no_fields\<lparr>m_selector := Some ''h1'', m_max_len := Some (int 20)\<rparr>) demo_page =
         (Inr [(''html'', JStr ''<h1>Hello</h1>''), (''truncated'', JBool False), (''length'', JNum 14)], demo_page)"
proof -
  let ?p = "no_fields\<lparr>m_selector := Some ''h1'', m_max_len := Some (int 3)\<rparr>"
  let ?q = "no_fields\<lparr>m_selector := Some ''h1'', m_max_len := Some (int 20)\<rparr>"
  have m: "markup ?p demo_page = Inr ''<h1>Hello</h1>''"
    by (simp add: markup_def or_default_def no_fields_def demo_page_def heading_def blank_node_def)
  have m': "markup ?q demo_page = Inr ''<h1>Hello</h1>''"
    by (simp add: markup_def or_default_def no_fields_def demo_page_def heading_def blank_node_def)
  have l: "m_max_len ?p = Some (int 3)" by simp
  have l': "m_max_len ?q = Some (int 20)" by simp
  show ?thesis
    using get_html_max_len [OF m l] get_html_max_len [OF m' l'] m m' by simp
qed

text \<open>
  A \<^verbatim>\<open>max_len\<close> below 0 is no length: \<^verbatim>\<open>slice\<close> then counts from the end of
  the markup.
\<close>

lemma get_html_negative_max_len:
  assumes "markup p pg = Inr html" and "m_max_len p = Some (- int (Suc n))"
  shows "get_html p pg =
           (Inr [(''html'', JStr (take (length html - Suc n) html)), (''truncated'', JBool True),
                 (''length'', JNum (of_nat (length html)))], pg)"
proof -
  have "nat (int (length html) + (- 1 - int n)) = length html - Suc n"
    by linarith
  with assms show ?thesis
    by (simp add: get_html_def or_default_def slice0_def Let_def)
qed

section \<open>Properties of the tab resolver\<close>

lemma stored_usable_Some:
  "stored_usable w = Some s \<longleftrightarrow> stored w = Some s \<and> (\<exists>t. tabs w s = Some t \<and> \<not> discarded t)"
  by (auto simp: stored_usable_def getStoredTabId_def chrome_tabs_get_def split: option.splits)

lemma stored_usable_None:
  assumes "stored w = None \<or> stored w = Some s \<and> tabs w s = None
           \<or> stored w = Some s \<and> tabs w s = Some t \<and> discarded t"
  shows "stored_usable w = None"
  using assms
  by (auto simp: stored_usable_def getStoredTabId_def chrome_tabs_get_def split: option.splits)

lemma resolve_created:
  assumes "isInteger preferredId = None" "stored_usable w = None" "active w = None \<or> active w = Some 0"
  shows "resolveTargetTabId preferredId w =
              (next_tab w,
               w\<lparr>tabs := (tabs w)(next_tab w \<mapsto> blank_tab w), active := Some (next_tab w),
                 next_tab := next_tab w + 1, stored := Some (next_tab w)\<rparr>)"
  using assms
  by (auto simp: resolveTargetTabId_def or_default_def chrome_tabs_create_def setStoredTabId_def blank_tab_def)

text \<open>
  C3. The order of tab resolution. An integer \<^verbatim>\<open>preferredId\<close> is returned as it is,
  whether or not such a tab exists, and the browser state is left as it was. Otherwise the
  remembered id is returned when that tab exists and is not discarded, again with the
  state unchanged. Otherwise, that is when no tab is remembered, or the remembered tab is
  gone, or it is discarded: the active tab of the last-focused window (its id is tested
  for truthiness, and the ids the browser gives are not 0) is remembered and returned;
  and without an active tab a blank tab is created, remembered and returned. In
  particular, with no preferred id, no remembered tab and no active tab, the result is
  the id of the tab just created, it is the remembered tab afterwards, and the next
  resolution without arguments returns it again.
\<close>

theorem resolveTargetTabId_order:
  "(preferredId = Some (JNum (of_int n)) \<longrightarrow> resolveTargetTabId preferredId w = (n, w))
   \<and> (isInteger preferredId = None \<and> stored w = Some s \<and> tabs w s = Some t \<and> \<not> discarded t
        \<longrightarrow> resolveTargetTabId preferredId w = (s, w))
   \<and> (isInteger preferredId = None
        \<and> (stored w = None \<or> stored w = Some s \<and> tabs w s = None
             \<or> stored w = Some s \<and> tabs w s = Some t \<and> discarded t)
        \<and> active w = Some a \<and> a \<noteq> 0
        \<longrightarrow> resolveTargetTabId preferredId w = (a, w\<lparr>stored := Some a\<rparr>))
   \<and> (isInteger preferredId = None
        \<and> (stored w = None \<or> stored w = Some s \<and> tabs w s = None
             \<or> stored w = Some s \<and> tabs w s = Some t \<and> discarded t)
        \<and> (active w = None \<or> active w = Some 0)
        \<longrightarrow> resolveTargetTabId preferredId w =
              (next_tab w,
               w\<lparr>tabs := (tabs w)(next_tab w \<mapsto> blank_tab w), active := Some (next_tab w),
                 next_tab := next_tab w + 1, stored := Some (next_tab w)\<rparr>))
   \<and> (stored w = None \<and> active w = None
        \<longrightarrow> (case resolveTargetTabId None w of
               (created, w1) \<Rightarrow>
                 created = next_tab w \<and> tabs w1 created = Some (blank_tab w) \<and> stored w1 = Some created
                 \<and> resolveTargetTabId None w1 = (created, w1)))"
proof (intro conjI impI)
  assume "preferredId = Some (JNum (of_int n))"
  then show "resolveTargetTabId preferredId w = (n, w)"
    by (simp add: resolveTargetTabId_def)
next
  assume a: "isInteger preferredId = None \<and> stored w = Some s \<and> tabs w s = Some t \<and> \<not> discarded t"
  then have "stored_usable w = Some s"
    by (simp add: stored_usable_Some)
  with a show "resolveTargetTabId preferredId w = (s, w)"
    by (simp add: resolveTargetTabId_def)
next
  assume a: "isInteger preferredId = None
        \<and> (stored w = None \<or> stored w = Some s \<and> tabs w s = None
             \<or> stored w = Some s \<and> tabs w s = Some t \<and> discarded t)
        \<and> active w = Some a \<and> a \<noteq> 0"
  then have "stored_usable w = None"
    by (intro stored_usable_None [of w s t]) blast
  with a show "resolveTargetTabId preferredId w = (a, w\<lparr>stored := Some a\<rparr>)"
    by (simp add: resolveTargetTabId_def or_default_def setStoredTabId_def)
next
  assume a: "isInteger preferredId = None
        \<and> (stored w = None \<or> stored w = Some s \<and> tabs w s = None
             \<or> stored w = Some s \<and> tabs w s = Some t \<and> discarded t)
        \<and> (active w = None \<or> active w = Some 0)"
  then have "stored_usable w = None"
    by (intro stored_usable_None [of w s t]) blast
  with a show "resolveTargetTabId preferredId w =
              (next_tab w,
               w\<lparr>tabs := (tabs w)(next_tab w \<mapsto> blank_tab w), active := Some (next_tab w),
                 next_tab := next_tab w + 1, stored := Some (next_tab w)\<rparr>)"
    by (simp add: resolve_created)
next
  assume a: "stored w = None \<and> active w = None"
  let ?w1 = "w\<lparr>tabs := (tabs w)(next_tab w \<mapsto> blank_tab w), active := Some (next_tab w),
                 next_tab := next_tab w + 1, stored := Some (next_tab w)\<rparr>"
  from a have u: "stored_usable w = None"
    by (simp add: stored_usable_def getStoredTabId_def)
  have r: "resolveTargetTabId None w = (next_tab w, ?w1)"
    using resolve_created [of None w] u a by simp
  have "stored_usable ?w1 = Some (next_tab w)"
    by (simp add: stored_usable_Some blank_tab_def)
  then have "resolveTargetTabId None ?w1 = (next_tab w, ?w1)"
    by (simp add: resolveTargetTabId_def)
  with r show "case resolveTargetTabId None w of
               (created, w1) \<Rightarrow>
                 created = next_tab w \<and> tabs w1 created = Some (blank_tab w) \<and> stored w1 = Some created
                 \<and> resolveTargetTabId None w1 = (created, w1)"
    by simp
qed

theorem resolveTargetTabId_order_witness:
  "resolveTargetTabId (Some (JNum 42)) demo_world = (42, demo_world)
   \<and> tabs demo_world 42 = None
   \<and> isInteger (Some (JStr ''7'')) = None
   \<and> stored (demo_world\<lparr>stored := Some 7\<rparr>) = Some 7
   \<and> tabs (demo_world\<lparr>stored := Some 7\<rparr>) 7 = Some demo_tab \<and> \<not> discarded demo_tab
   \<and> resolveTargetTabId (Some (JStr ''7'')) (demo_world\<lparr>stored := Some 7\<rparr>) = (7, demo_world\<lparr>stored := Some 7\<rparr>)
   \<and> isInteger None = None \<and> stored demo_world = None \<and> active demo_world = Some 7
   \<and> resolveTargetTabId None demo_world = (7, demo_world\<lparr>stored := Some 7\<rparr>)
   \<and> stored discarded_world = Some 5
   \<and> tabs discarded_world 5 = Some (demo_tab\<lparr>discarded := True\<rparr>)
   \<and> discarded (demo_tab\<lparr>discarded := True\<rparr>)
   \<and> active discarded_world = Some 7
   \<and> resolveTargetTabId None discarded_world = (7, discarded_world\<lparr>stored := Some 7\<rparr>)
   \<and> stored (demo_world\<lparr>stored := Some 3, active := Some 0\<rparr>) = Some 3
   \<and> tabs (demo_world\<lparr>stored := Some 3, active := Some 0\<rparr>) 3 = None
   \<and> fst (resolveTargetTabId None (demo_world\<lparr>stored := Some 3, active := Some 0\<rparr>)) = 8
   \<and> stored (demo_world\<lparr>active := None\<rparr>) = None \<and> active (demo_world\<lparr>active := None\<rparr>) = None
   \<and> fst (resolveTargetTabId None (demo_world\<lparr>active := None\<rparr>)) = 8
   \<and> stored (snd (resolveTargetTabId None (demo_world\<lparr>active := None\<rparr>))) = Some 8
   \<and> fst (resolveTargetTabId None (snd (resolveTargetTabId None (demo_world\<lparr>active := None\<rparr>)))) = 8"
proof -
  have t: "tabs demo_world 7 = Some demo_tab \<and> \<not> discarded demo_tab \<and> tabs demo_world 42 = None
           \<and> tabs demo_world 3 = None \<and> stored demo_world = None
           \<and> active demo_world = Some 7 \<and> next_tab demo_world = 8"
    by (simp add: demo_world_def demo_tab_def)
  have d: "stored discarded_world = Some 5
           \<and> tabs discarded_world 5 = Some (demo_tab\<lparr>discarded := True\<rparr>)
           \<and> discarded (demo_tab\<lparr>discarded := True\<rparr>) \<and> active discarded_world = Some 7"
    by (simp add: discarded_world_def demo_world_def)
  have c1: "resolveTargetTabId (Some (JNum 42)) demo_world = (42, demo_world)"
    using resolveTargetTabId_order [of "Some (JNum 42)" 42 demo_world] by simp
  have c2: "resolveTargetTabId (Some (JStr ''7'')) (demo_world\<lparr>stored := Some 7\<rparr>) = (7, demo_world\<lparr>stored := Some 7\<rparr>)"
    using resolveTargetTabId_order [of "Some (JStr ''7'')" _ "demo_world\<lparr>stored := Some 7\<rparr>" 7 demo_tab] t by simp
  have c3: "resolveTargetTabId None demo_world = (7, demo_world\<lparr>stored := Some 7\<rparr>)"
    using resolveTargetTabId_order [of None _ demo_world _ _ 7] t by simp
  have c3d: "resolveTargetTabId None discarded_world = (7, discarded_world\<lparr>stored := Some 7\<rparr>)"
    using resolveTargetTabId_order [of None _ discarded_world 5 "demo_tab\<lparr>discarded := True\<rparr>" 7] d by simp
  have c4: "fst (resolveTargetTabId None (demo_world\<lparr>stored := Some 3, active := Some 0\<rparr>)) = 8"
    using resolveTargetTabId_order [of None _ "demo_world\<lparr>stored := Some 3, active := Some 0\<rparr>" 3] t by simp
  have c5: "fst (resolveTargetTabId None (demo_world\<lparr>active := None\<rparr>)) = 8
   \<and> stored (snd (resolveTargetTabId None (demo_world\<lparr>active := None\<rparr>))) = Some 8
   \<and> fst (resolveTargetTabId None (snd (resolveTargetTabId None (demo_world\<lparr>active := None\<rparr>)))) = 8"
    using resolveTargetTabId_order [of None _ "demo_world\<lparr>active := None\<rparr>"] t
    by (simp split: prod.splits)
  show ?thesis using c1 c2 c3 c3d c4 c5 t d by simp
qed

section \<open>Properties of navigation\<close>

lemma nav_target_exists:
  "nav_target payload w = (Inr tabId, w1) \<Longrightarrow> \<exists>t. tabs w1 tabId = Some t"
  by (auto simp: nav_target_def chrome_tabs_update_def chrome_tabs_create_def Let_def
           split: if_splits prod.splits sum.splits option.splits)

lemma nav_after_target:
  assumes "nav_target payload w = (Inr tabId, w1)"
  shows "snd (nav payload w) = setStoredTabId tabId w1"
    and "wait_ticks (loading w1 tabId) 30000 1 \<Longrightarrow>
           \<exists>u. fst (nav payload w) = Inr [(''tabId'', JNum (of_int tabId)), (''url'', u), (''ok'', JBool True)]"
    and "\<not> wait_ticks (loading w1 tabId) 30000 1 \<Longrightarrow>
           fst (nav payload w) = Inl ''Timeout waiting for tab to load''"
proof -
  from nav_target_exists [OF assms] obtain t where t: "tabs w1 tabId = Some t" ..
  show "snd (nav payload w) = setStoredTabId tabId w1"
    using assms t
    by (simp add: nav_def waitForTabLoad_def chrome_tabs_get_def setStoredTabId_def Let_def
             del: wait_ticks.simps)
  show "wait_ticks (loading w1 tabId) 30000 1 \<Longrightarrow>
           \<exists>u. fst (nav payload w) = Inr [(''tabId'', JNum (of_int tabId)), (''url'', u), (''ok'', JBool True)]"
    using assms t
    by (simp add: nav_def waitForTabLoad_def chrome_tabs_get_def setStoredTabId_def Let_def
             del: wait_ticks.simps)
  show "\<not> wait_ticks (loading w1 tabId) 30000 1 \<Longrightarrow>
           fst (nav payload w) = Inl ''Timeout waiting for tab to load''"
    using assms t
    by (simp add: nav_def waitForTabLoad_def chrome_tabs_get_def setStoredTabId_def Let_def
             del: wait_ticks.simps)
qed

lemma wait_ticks_never:
  "\<forall>j\<ge>k. obs j = Loading \<Longrightarrow> \<not> wait_ticks obs timeoutMs k"
proof (induction obs timeoutMs k rule: wait_ticks.induct)
  case (1 obs timeoutMs k)
  show ?case
  proof (cases "250 * int k > timeoutMs")
    case True
    with "1.prems" show ?thesis by (subst wait_ticks.simps) simp
  next
    case False
    have "\<not> wait_ticks obs timeoutMs (Suc k)"
      using "1.IH" "1.prems" False by simp
    with "1.prems" False show ?thesis by (subst wait_ticks.simps) simp
  qed
qed

text \<open>A navigation into a fresh tab, which in the demo browser never finishes loading.\<close>

lemma nav_fresh_target:
  "nav_target nav_fresh (demo_world\<lparr>stored := Some 7\<rparr>) = (Inr 8, nav_fresh_world)"
  by (simp add: nav_target_def nav_fresh_def no_fields_def or_default_def chrome_tabs_create_def
        demo_world_def nav_fresh_world_def)

lemma nav_fresh_never_loads: "\<not> wait_ticks (loading nav_fresh_world 8) 30000 1"
proof -
  have "loading nav_fresh_world 8 = (\<lambda>k. Loading)"
    by (simp add: demo_world_def nav_fresh_world_def)
  then show ?thesis
    by (simp add: wait_ticks_never del: wait_ticks.simps)
qed

lemma nav_reuse_target:
  "nav_target nav_reuse demo_world = (Inr 7, nav_reuse_world)"
  by (simp add: nav_target_def nav_reuse_def no_fields_def or_default_def chrome_tabs_update_def
        resolveTargetTabId_def stored_usable_def getStoredTabId_def setStoredTabId_def
        demo_world_def nav_reuse_world_def)

lemma nav_reuse_loads: "wait_ticks (loading nav_reuse_world 7) 30000 1"
proof -
  have l: "loading nav_reuse_world 7 = (\<lambda>k. if 3 \<le> k then CompletePolled else Loading)"
    by (simp add: demo_world_def nav_reuse_world_def)
  show ?thesis
    unfolding l by simp
qed

text \<open>
  C2, as the code has it. \<^verbatim>\<open>nav\<close> stores the id of the tab it navigates (the resolved
  tab it updated, or the tab it created) before it waits for the load. Once the navigation
  is issued, the remembered tab afterwards is that tab, whether the wait ends with the tab
  loaded or with the timeout; the handler fails with the timeout exactly when no tick of
  the wait finds the tab complete, and succeeds with that tab id otherwise.
\<close>

theorem nav_stores_before_wait:
  assumes "nav_target payload w = (Inr tabId, w1)"
  shows "snd (nav payload w) = setStoredTabId tabId w1
         \<and> stored (snd (nav payload w)) = Some tabId
         \<and> (wait_ticks (loading w1 tabId) 30000 1 \<longrightarrow>
              (\<exists>u. fst (nav payload w) = Inr [(''tabId'', JNum (of_int tabId)), (''url'', u), (''ok'', JBool True)]))
         \<and> (\<not> wait_ticks (loading w1 tabId) 30000 1 \<longrightarrow>
              fst (nav payload w) = Inl ''Timeout waiting for tab to load'')"
  using nav_after_target [OF assms] by (simp add: setStoredTabId_def del: wait_ticks.simps)

theorem nav_stores_before_wait_witness:
  "nav_target nav_fresh (demo_world\<lparr>stored := Some 7\<rparr>) = (Inr 8, nav_fresh_world)
   \<and> \<not> wait_ticks (loading nav_fresh_world 8) 30000 1
   \<and> fst (nav nav_fresh (demo_world\<lparr>stored := Some 7\<rparr>)) = Inl ''Timeout waiting for tab to load''
   \<and> stored (snd (nav nav_fresh (demo_world\<lparr>stored := Some 7\<rparr>))) = Some 8
   \<and> nav_target nav_reuse demo_world = (Inr 7, nav_reuse_world)
   \<and> wait_ticks (loading nav_reuse_world 7) 30000 1
   \<and> (\<exists>u. fst (nav nav_reuse demo_world) = Inr [(''tabId'', JNum 7), (''url'', u), (''ok'', JBool True)])
   \<and> stored (snd (nav nav_reuse demo_world)) = Some 7"
  using nav_stores_before_wait [OF nav_fresh_target] nav_stores_before_wait [OF nav_reuse_target]
    nav_fresh_target nav_fresh_never_loads nav_reuse_target nav_reuse_loads
  by (simp add: setStoredTabId_def del: wait_ticks.simps)

text \<open>
  C2 as stated fails: with tab 7 remembered, a navigation into a fresh tab that never
  finishes loading fails with the timeout, and the remembered tab is then the fresh tab 8.
\<close>

theorem nav_timeout_counterexample:
  "fst (nav nav_fresh (demo_world\<lparr>stored := Some 7\<rparr>)) = Inl ''Timeout waiting for tab to load''
   \<and> stored (demo_world\<lparr>stored := Some 7\<rparr>) = Some 7
   \<and> stored (snd (nav nav_fresh (demo_world\<lparr>stored := Some 7\<rparr>))) = Some 8"
  using nav_after_target [OF nav_fresh_target] nav_fresh_never_loads
  by (simp add: setStoredTabId_def del: wait_ticks.simps)

section \<open>Properties of typing\<close>


lemma quiet_cong: "listeners pg1 = listeners pg \<Longrightarrow> quiet pg1 el = quiet pg el"
  by (simp add: quiet_def)


lemma type_char_events:
  "events (type_char el ch pg) = events pg @ keystrokes el ch"
  by (simp add: type_char_def dispatch_def set_val_def sleep_def keystrokes_def Let_def split: option.splits)

lemma fold_type_char_events:
  "events (fold (type_char el) text pg) = events pg @ concat (map (keystrokes el) text)"
  by (induction "text" arbitrary: pg) (auto simp: type_char_events)









lemma type_into_events:
  "events (type_into el text clear enter pg) =
     events pg @ [(el, Focus)] @ concat (map (keystrokes el) text) @ [(el, Change)]
       @ (if enter then [(el, KeyDown ''Enter''), (el, KeyUp ''Enter'')] else [])"
  by (simp add: type_into_def type_prepare_def Let_def dispatch_def set_val_def fold_type_char_events)






section \<open>Properties of the XPath handler\<close>

lemma poll_times_Suc: "poll_times s (Suc k) = s # poll_times (s + 100) k"
proof -
  have "[0..<Suc (Suc k)] = 0 # map Suc [0..<Suc k]"
    by (simp only: map_Suc_upt upt_conv_Cons [of 0 "Suc (Suc k)"])
  then show ?thesis
    by (simp add: poll_times_def comp_def algebra_simps del: upt_Suc)
qed

lemma evalSnapshot_eq:
  "evalSnapshot pg xp = (snapshot_at pg xp 0, pg\<lparr>eval_log := eval_log pg @ [clock pg]\<rparr>)"
  by (simp add: evalSnapshot_def snapshot_at_def)

text \<open>The loop, entered at any moment: \<open>e\<close> is the time since \<open>start\<close>.\<close>

lemma waitForIndex_from:
  "\<exists>k. (\<forall>j<k. \<not> (timeout \<le> clock pg - start + 100 * int j \<or>
               (case xpath_eval pg (clock pg + 100 * int j) xp of
                  Inl m \<Rightarrow> True | Inr snap \<Rightarrow> idx < int (length snap))))
       \<and> (timeout \<le> clock pg - start + 100 * int k \<or>
               (case xpath_eval pg (clock pg + 100 * int k) xp of
                  Inl m \<Rightarrow> True | Inr snap \<Rightarrow> idx < int (length snap)))
       \<and> waitForIndex pg start xp idx timeout =
           (snapshot_at pg xp (100 * int k),
            pg\<lparr>clock := clock pg + 100 * int k, eval_log := eval_log pg @ poll_times (clock pg) k\<rparr>)"
proof (induction pg start xp idx timeout rule: waitForIndex.induct)
  case (1 pg start xp idx timeout)
  show ?case
  proof (cases "clock pg - start < timeout")
    case False
    then have "waitForIndex pg start xp idx timeout = evalSnapshot pg xp"
      by (subst waitForIndex.simps) simp
    with False show ?thesis
      by (intro exI [of _ 0]) (simp add: evalSnapshot_eq poll_times_def)
  next
    case True
    show ?thesis
    proof (cases "xpath_eval pg (clock pg) xp")
      case (Inl m)
      with True have "waitForIndex pg start xp idx timeout = evalSnapshot pg xp"
        by (subst waitForIndex.simps) (simp add: evalSnapshot_def)
      with Inl show ?thesis
        by (intro exI [of _ 0]) (simp add: evalSnapshot_eq poll_times_def)
    next
      case (Inr snap)
      show ?thesis
      proof (cases "idx < int (length snap)")
        case yes: True
        with True Inr have "waitForIndex pg start xp idx timeout = evalSnapshot pg xp"
          by (subst waitForIndex.simps) (simp add: evalSnapshot_def)
        with Inr yes show ?thesis
          by (intro exI [of _ 0]) (simp add: evalSnapshot_eq poll_times_def)
      next
        case no: False
        let ?pg1 = "pg\<lparr>eval_log := eval_log pg @ [clock pg]\<rparr>"
        let ?pg2 = "sleep 100 ?pg1"
        have e: "evalSnapshot pg xp = (Inr snap, ?pg1)"
          using Inr by (simp add: evalSnapshot_def)
        have w: "waitForIndex pg start xp idx timeout = waitForIndex ?pg2 start xp idx timeout"
          using True no e by (subst waitForIndex.simps) simp
        from "1.IH" [OF True e [symmetric] refl no]
        obtain k where k:
          "\<forall>j<k. \<not> (timeout \<le> clock ?pg2 - start + 100 * int j \<or>
               (case xpath_eval ?pg2 (clock ?pg2 + 100 * int j) xp of
                  Inl m \<Rightarrow> True | Inr snap \<Rightarrow> idx < int (length snap)))"
          "timeout \<le> clock ?pg2 - start + 100 * int k \<or>
               (case xpath_eval ?pg2 (clock ?pg2 + 100 * int k) xp of
                  Inl m \<Rightarrow> True | Inr snap \<Rightarrow> idx < int (length snap))"
          "waitForIndex ?pg2 start xp idx timeout =
           (snapshot_at ?pg2 xp (100 * int k),
            ?pg2\<lparr>clock := clock ?pg2 + 100 * int k, eval_log := eval_log ?pg2 @ poll_times (clock ?pg2) k\<rparr>)"
          by auto
        have all: "\<forall>j<Suc k. \<not> (timeout \<le> clock pg - start + 100 * int j \<or>
               (case xpath_eval pg (clock pg + 100 * int j) xp of
                  Inl m \<Rightarrow> True | Inr snap \<Rightarrow> idx < int (length snap)))"
        proof (intro allI impI)
          fix j assume j: "j < Suc k"
          show "\<not> (timeout \<le> clock pg - start + 100 * int j \<or>
               (case xpath_eval pg (clock pg + 100 * int j) xp of
                  Inl m \<Rightarrow> True | Inr snap \<Rightarrow> idx < int (length snap)))"
          proof (cases j)
            case 0
            with True Inr no show ?thesis by simp
          next
            case (Suc i)
            with j have "i < k" by simp
            with k(1) have "\<not> (timeout \<le> clock ?pg2 - start + 100 * int i \<or>
               (case xpath_eval ?pg2 (clock ?pg2 + 100 * int i) xp of
                  Inl m \<Rightarrow> True | Inr snap \<Rightarrow> idx < int (length snap)))"
              by blast
            then show ?thesis
              using Suc by (simp add: sleep_def algebra_simps)
          qed
        qed
        have stop: "timeout \<le> clock pg - start + 100 * int (Suc k) \<or>
               (case xpath_eval pg (clock pg + 100 * int (Suc k)) xp of
                  Inl m \<Rightarrow> True | Inr snap \<Rightarrow> idx < int (length snap))"
          using k(2) by (simp add: sleep_def algebra_simps)
        have res: "waitForIndex pg start xp idx timeout =
           (snapshot_at pg xp (100 * int (Suc k)),
            pg\<lparr>clock := clock pg + 100 * int (Suc k),
               eval_log := eval_log pg @ poll_times (clock pg) (Suc k)\<rparr>)"
          using w k(3)
          by (simp add: sleep_def snapshot_at_def poll_times_Suc algebra_simps)
        from all stop res show ?thesis
          by blast
      qed
    qed
  qed
qed

lemma waitForIndex_now:
  "\<exists>k. (\<forall>j<k. \<not> polling_stops pg xp idx timeout (100 * int j))
       \<and> polling_stops pg xp idx timeout (100 * int k)
       \<and> waitForIndex pg (clock pg) xp idx timeout =
           (snapshot_at pg xp (100 * int k),
            pg\<lparr>clock := clock pg + 100 * int k, eval_log := eval_log pg @ poll_times (clock pg) k\<rparr>)"
  using waitForIndex_from [where pg = pg and start = "clock pg" and xp = xp and idx = idx
          and timeout = timeout]
  by (simp add: polling_stops_def)

lemma xpath_action_reads:
  assumes "action = ''list'' \<or> action = ''exists'' \<or> action = ''count''"
  shows "snd (xpath_action p action snap pg) = pg"
  using assms by (auto simp: xpath_action_def Let_def)

lemma xpath_action_count:
  "xpath_action p ''count'' snap pg = (Inr [(''count'', JNum (of_nat (length snap)))], pg)"
  by (simp add: xpath_action_def Let_def)

text \<open>
  C4. With a usable \<^verbatim>\<open>expr\<close>: for the actions \<^verbatim>\<open>list\<close>, \<^verbatim>\<open>exists\<close> and
  \<^verbatim>\<open>count\<close> the snapshot is evaluated once, at the moment of the call, and the handler
  returns without the clock having moved; \<^verbatim>\<open>count\<close> answers with the number of nodes
  of that one snapshot, 0 when there are none. For \<^verbatim>\<open>click\<close>, \<^verbatim>\<open>getAttribute\<close>,
  \<^verbatim>\<open>getHTML\<close>, \<^verbatim>\<open>getText\<close>, \<^verbatim>\<open>setValue\<close> and \<^verbatim>\<open>type\<close> the snapshot is
  evaluated at the call and every 100 ms after it, up to the first of these moments at
  which it has more than \<^verbatim>\<open>index\<close> nodes (or the evaluation throws) or
  \<^verbatim>\<open>timeout_ms\<close> has elapsed; the action then works on the snapshot of that moment.
\<close>

theorem xpath_snapshot_policy:
  assumes "m_expr p = Some (JStr expr)" and "expr \<noteq> []"
  shows "(or_default ''list'' (m_action p) \<in> {''list'', ''exists'', ''count''} \<longrightarrow>
            snd (xpath p pg) = pg\<lparr>eval_log := eval_log pg @ [clock pg]\<rparr>
            \<and> xpath p pg =
                (case snapshot_at pg expr 0 of
                   Inl e \<Rightarrow> (Inl e, pg\<lparr>eval_log := eval_log pg @ [clock pg]\<rparr>)
                 | Inr snap \<Rightarrow> xpath_action p (or_default ''list'' (m_action p)) snap
                                (pg\<lparr>eval_log := eval_log pg @ [clock pg]\<rparr>)))
         \<and> (m_action p = Some ''count'' \<and> xpath_eval pg (clock pg) expr = Inr snap \<longrightarrow>
            xpath p pg = (Inr [(''count'', JNum (of_nat (length snap)))],
                          pg\<lparr>eval_log := eval_log pg @ [clock pg]\<rparr>))
         \<and> (or_default ''list'' (m_action p)
               \<in> {''click'', ''getAttribute'', ''getHTML'', ''getText'', ''setValue'', ''type''} \<longrightarrow>
            (\<exists>k. (\<forall>j<k. \<not> polling_stops pg expr (or_default 0 (m_index p))
                               (or_default 2000 (m_timeout_ms p)) (100 * int j))
                 \<and> polling_stops pg expr (or_default 0 (m_index p))
                       (or_default 2000 (m_timeout_ms p)) (100 * int k)
                 \<and> xpath p pg =
                     (case snapshot_at pg expr (100 * int k) of
                        Inl e \<Rightarrow> (Inl e, pg\<lparr>clock := clock pg + 100 * int k,
                                           eval_log := eval_log pg @ poll_times (clock pg) k\<rparr>)
                      | Inr snap \<Rightarrow> xpath_action p (or_default ''list'' (m_action p)) snap
                                     (pg\<lparr>clock := clock pg + 100 * int k,
                                         eval_log := eval_log pg @ poll_times (clock pg) k\<rparr>))))"
proof (intro conjI impI)
  assume a: "or_default ''list'' (m_action p) \<in> {''list'', ''exists'', ''count''}"
  then have n: "\<not> needsIndex (or_default ''list'' (m_action p))"
    by (auto simp: needsIndex_def)
  show x: "xpath p pg =
                (case snapshot_at pg expr 0 of
                   Inl e \<Rightarrow> (Inl e, pg\<lparr>eval_log := eval_log pg @ [clock pg]\<rparr>)
                 | Inr snap \<Rightarrow> xpath_action p (or_default ''list'' (m_action p)) snap
                                (pg\<lparr>eval_log := eval_log pg @ [clock pg]\<rparr>))"
    using assms n by (simp add: xpath_def Let_def evalSnapshot_eq split: sum.splits)
  show "snd (xpath p pg) = pg\<lparr>eval_log := eval_log pg @ [clock pg]\<rparr>"
    using a by (simp add: x xpath_action_reads split: sum.splits)
next
  assume a: "m_action p = Some ''count'' \<and> xpath_eval pg (clock pg) expr = Inr snap"
  then have n: "\<not> needsIndex (or_default ''list'' (m_action p))"
    by (simp add: needsIndex_def or_default_def)
  show "xpath p pg = (Inr [(''count'', JNum (of_nat (length snap)))],
                          pg\<lparr>eval_log := eval_log pg @ [clock pg]\<rparr>)"
    using assms n a
    by (simp add: xpath_def Let_def evalSnapshot_def or_default_def xpath_action_count)
next
  assume a: "or_default ''list'' (m_action p)
               \<in> {''click'', ''getAttribute'', ''getHTML'', ''getText'', ''setValue'', ''type''}"
  then have n: "needsIndex (or_default ''list'' (m_action p))"
    by (simp add: needsIndex_def)
  from waitForIndex_now [where pg = pg and xp = expr and idx = "or_default 0 (m_index p)"
         and timeout = "or_default 2000 (m_timeout_ms p)"]
  obtain k where k:
    "\<forall>j<k. \<not> polling_stops pg expr (or_default 0 (m_index p)) (or_default 2000 (m_timeout_ms p)) (100 * int j)"
    "polling_stops pg expr (or_default 0 (m_index p)) (or_default 2000 (m_timeout_ms p)) (100 * int k)"
    "waitForIndex pg (clock pg) expr (or_default 0 (m_index p)) (or_default 2000 (m_timeout_ms p)) =
           (snapshot_at pg expr (100 * int k),
            pg\<lparr>clock := clock pg + 100 * int k, eval_log := eval_log pg @ poll_times (clock pg) k\<rparr>)"
    by blast
  have "xpath p pg =
                     (case snapshot_at pg expr (100 * int k) of
                        Inl e \<Rightarrow> (Inl e, pg\<lparr>clock := clock pg + 100 * int k,
                                           eval_log := eval_log pg @ poll_times (clock pg) k\<rparr>)
                      | Inr snap \<Rightarrow> xpath_action p (or_default ''list'' (m_action p)) snap
                                     (pg\<lparr>clock := clock pg + 100 * int k,
                                         eval_log := eval_log pg @ poll_times (clock pg) k\<rparr>))"
    using assms n k(3) by (simp add: xpath_def Let_def split: sum.splits del: waitForIndex.simps)
  with k(1,2) show "\<exists>k. (\<forall>j<k. \<not> polling_stops pg expr (or_default 0 (m_index p))
                               (or_default 2000 (m_timeout_ms p)) (100 * int j))
                 \<and> polling_stops pg expr (or_default 0 (m_index p))
                       (or_default 2000 (m_timeout_ms p)) (100 * int k)
                 \<and> xpath p pg =
                     (case snapshot_at pg expr (100 * int k) of
                        Inl e \<Rightarrow> (Inl e, pg\<lparr>clock := clock pg + 100 * int k,
                                           eval_log := eval_log pg @ poll_times (clock pg) k\<rparr>)
                      | Inr snap \<Rightarrow> xpath_action p (or_default ''list'' (m_action p)) snap
                                     (pg\<lparr>clock := clock pg + 100 * int k,
                                         eval_log := eval_log pg @ poll_times (clock pg) k\<rparr>))"
    by blast
qed

lemma demo_polling:
  "\<not> polling_stops demo_page ''//input'' 0 2000 (100 * int 0)"
  "\<not> polling_stops demo_page ''//input'' 0 2000 (100 * int 1)"
  "polling_stops demo_page ''//input'' 0 2000 (100 * int 2)"
  by (simp_all add: polling_stops_def demo_page_def)

theorem xpath_snapshot_policy_witness:
  "m_expr xp_count = Some (JStr ''//p'') \<and> ''//p'' \<noteq> []
   \<and> m_action xp_count = Some ''count''
   \<and> xpath_eval demo_page (clock demo_page) ''//p'' = Inr []
   \<and> xpath xp_count demo_page = (Inr [(''count'', JNum 0)], demo_page\<lparr>eval_log := [0]\<rparr>)
   \<and> m_expr xp_attr = Some (JStr ''//input'')
   \<and> or_default ''list'' (m_action xp_attr) = ''getAttribute''
   \<and> \<not> polling_stops demo_page ''//input'' 0 2000 0
   \<and> \<not> polling_stops demo_page ''//input'' 0 2000 100
   \<and> polling_stops demo_page ''//input'' 0 2000 200
   \<and> xpath xp_attr demo_page =
         (Inr [(''value'', JStr ''q'')], demo_page\<lparr>clock := 200, eval_log := [0, 100, 200]\<rparr>)"
proof -
  have c: "m_expr xp_count = Some (JStr ''//p'')" "m_action xp_count = Some ''count''"
    "xpath_eval demo_page (clock demo_page) ''//p'' = Inr []"
    by (simp_all add: xp_count_def demo_page_def)
  have one: "xpath xp_count demo_page = (Inr [(''count'', JNum 0)], demo_page\<lparr>eval_log := [0]\<rparr>)"
    using xpath_snapshot_policy [OF c(1), where pg = demo_page and snap = "[]"] c by (simp add: demo_page_def)
  have a: "m_expr xp_attr = Some (JStr ''//input'')"
    "or_default ''list'' (m_action xp_attr) = ''getAttribute''"
    "or_default 0 (m_index xp_attr) = 0" "or_default 2000 (m_timeout_ms xp_attr) = 2000"
    by (simp_all add: xp_attr_def no_fields_def or_default_def)
  have "\<exists>k. (\<forall>j<k. \<not> polling_stops demo_page ''//input'' 0 2000 (100 * int j))
          \<and> polling_stops demo_page ''//input'' 0 2000 (100 * int k)
          \<and> xpath xp_attr demo_page =
       (case snapshot_at demo_page ''//input'' (100 * int k) of
          Inl e \<Rightarrow> (Inl e, demo_page\<lparr>clock := clock demo_page + 100 * int k,
                             eval_log := eval_log demo_page @ poll_times (clock demo_page) k\<rparr>)
        | Inr snap \<Rightarrow> xpath_action xp_attr (or_default ''list'' (m_action xp_attr)) snap
                       (demo_page\<lparr>clock := clock demo_page + 100 * int k,
                           eval_log := eval_log demo_page @ poll_times (clock demo_page) k\<rparr>))"
    using xpath_snapshot_policy [OF a(1), where pg = demo_page and snap = "[]"] a by simp
  then obtain k where k:
    "\<forall>j<k. \<not> polling_stops demo_page ''//input'' 0 2000 (100 * int j)"
    "polling_stops demo_page ''//input'' 0 2000 (100 * int k)"
    "xpath xp_attr demo_page =
       (case snapshot_at demo_page ''//input'' (100 * int k) of
          Inl e \<Rightarrow> (Inl e, demo_page\<lparr>clock := clock demo_page + 100 * int k,
                             eval_log := eval_log demo_page @ poll_times (clock demo_page) k\<rparr>)
        | Inr snap \<Rightarrow> xpath_action xp_attr (or_default ''list'' (m_action xp_attr)) snap
                       (demo_page\<lparr>clock := clock demo_page + 100 * int k,
                           eval_log := eval_log demo_page @ poll_times (clock demo_page) k\<rparr>))"
    by blast
  have "k = 2"
  proof (rule ccontr)
    assume "k \<noteq> 2"
    then consider "k = 0" | "k = 1" | "2 < k" by linarith
    then show False
    proof cases
      case 1 with k(2) demo_polling(1) show False by simp
    next
      case 2 with k(2) demo_polling(2) show False by simp
    next
      case 3 with k(1) demo_polling(3) show False by blast
    qed
  qed
  have s: "snapshot_at demo_page ''//input'' 200 = Inr [1]"
    by (simp add: snapshot_at_def demo_page_def)
  have p: "poll_times 0 2 = [0, 100, 200]"
    by (simp add: poll_times_def numeral_2_eq_2)
  have two: "xpath xp_attr demo_page =
         (Inr [(''value'', JStr ''q'')], demo_page\<lparr>clock := 200, eval_log := [0, 100, 200]\<rparr>)"
    using k(3) \<open>k = 2\<close> s p a(2)
    by (simp add: xpath_action_def xp_attr_def no_fields_def or_default_def Let_def ensureElement_def
          nth_node_def item_def demo_page_def query_box_def blank_node_def)
  show ?thesis
    using c a one two demo_polling by simp
qed

section \<open>Properties of the dispatcher and the correlator\<close>

lemma stringify_idem: "stringify (stringify v) = stringify v"
  by (induction v) (auto simp: map_prod_def split: prod.splits)

lemma stringify_null_iff: "stringify v = JNull \<longleftrightarrow> v = JNull \<or> (\<exists>b. v = JInf b)"
  by (cases v) auto

lemma get_field_wire: "get_field (wire env) k = map_option stringify (get_field env k)"
  by (induction env) (auto simp: get_field_def wire_def)

lemma get_field_success [simp]:
  "get_field (success i r) ''id'' = Some i"
  "get_field (success i r) ''ok'' = Some (JBool True)"
  "get_field (success i r) ''result'' = Some r"
  by (simp_all add: get_field_def success_def)

lemma get_field_failure [simp]:
  "get_field (failure i m) ''id'' = Some i"
  "get_field (failure i m) ''ok'' = Some (JBool False)"
  "get_field (failure i m) ''error'' = Some (JStr m)"
  by (simp_all add: get_field_def failure_def)

text \<open>A request of type \<^verbatim>\<open>cmd\<close> is answered, and the answer carries its id.\<close>

lemma listener_answers:
  assumes "r_type req = ''cmd''"
  shows "\<exists>env w1. listener req w = (Some env, w1) \<and> get_field env ''id'' = Some (r_id req)"
  using assms
  by (auto simp: listener_def split: prod.splits sum.splits)

lemma sendMessage_id:
  assumes "r_type req = ''cmd''" and "sendMessage req w = (Inr env, w1)"
  shows "get_field env ''id'' = Some (stringify (r_id req))"
proof -
  have "r_type (serialise req) = ''cmd''" "r_id (serialise req) = stringify (r_id req)"
    using assms(1) by (simp_all add: serialise_def)
  with listener_answers [of "serialise req" w]
  obtain e w2 where "listener (serialise req) w = (Some e, w2)"
    "get_field e ''id'' = Some (stringify (r_id req))"
    by auto
  with assms(2) show ?thesis
    by (auto simp: sendMessage_def get_field_wire stringify_idem split: if_splits)
qed

text \<open>
  Every parsed message that is not \<^verbatim>\<open>null\<close> gets one reply, under the id chosen for it
  as it reads on the wire.
\<close>

lemma onmessage_one_reply:
  "\<exists>env w1. onmessage (Object msg) w = ([env], w1)
     \<and> get_field env ''id'' =
         Some (if truthy (m_id msg) then stringify (or_default JNull (m_id msg))
               else JStr (uuid_source w (uuid_count w)))"
proof (cases "m_cmd msg = Some ''ping''")
  case True
  then show ?thesis
    by (simp add: onmessage_def randomUUID_def get_field_wire)
next
  case False
  let ?i = "if truthy (m_id msg) then or_default JNull (m_id msg) else JStr (uuid_source w (uuid_count w))"
  let ?w = "if truthy (m_id msg) then w else w\<lparr>uuid_count := Suc (uuid_count w)\<rparr>"
  let ?req = "\<lparr>r_type = ''cmd'', r_id = ?i, r_cmd = m_cmd msg, r_payload = msg\<rparr>"
  have o: "onmessage (Object msg) w =
             (case sendMessage ?req ?w of
                (Inl e, w2) \<Rightarrow> ([wire (failure ?i e)], w2)
              | (Inr response, w2) \<Rightarrow> ([wire response], w2))"
    using False by (simp add: onmessage_def randomUUID_def)
  obtain r w2 where s: "sendMessage ?req ?w = (r, w2)"
    by (cases "sendMessage ?req ?w")
  show ?thesis
  proof (cases r)
    case (Inl e)
    with o s show ?thesis by (simp add: get_field_wire)
  next
    case (Inr response)
    with s have "get_field response ''id'' = Some (stringify (r_id ?req))"
      by (intro sendMessage_id [of ?req ?w response w2]) simp_all
    with o s Inr show ?thesis by (simp add: get_field_wire stringify_idem)
  qed
qed

lemma truthy_value:
  "truthy v \<Longrightarrow> Some (or_default JNull v) = v \<and> v \<noteq> Some JNull \<and> v \<noteq> None"
  by (cases v) (auto simp: or_default_def)

lemma run_exists_h1:
  "onmessage (Object exists_h1) demo_world =
     ([success (JStr ''2'') (JObj [(''exists'', JBool True), (''tabId'', JNum 7)])],
      demo_world\<lparr>stored := Some 7,
        tabs := (tabs demo_world)(7 \<mapsto> demo_tab)\<rparr>)"
  by (simp add: onmessage_def exists_h1_def no_fields_def sendMessage_def serialise_def wire_def
        listener_def success_def
        handlers_has_def handler_names_def str_text_def or_default_def resolveTargetTabId_def
        stored_usable_def getStoredTabId_def setStoredTabId_def call_handler_def runInPage_def
        exists_h_def spread_def demo_world_def demo_tab_def demo_page_def)




text \<open>
  C10. When the id of the message is absent, \<^verbatim>\<open>null\<close>, the empty string, 0 or
  \<^verbatim>\<open>false\<close>, the one reply carries the next UUID instead (a string of 36
  characters), which differs from the id that came in.
\<close>

theorem falsy_id_replaced:
  assumes "m_id msg \<in> {None, Some JNull, Some (JStr []), Some (JNum 0), Some (JBool False)}"
      and "length (uuid_source w (uuid_count w)) = 36"
  shows "\<exists>env w1. onmessage (Object msg) w = ([env], w1)
           \<and> get_field env ''id'' = Some (JStr (uuid_source w (uuid_count w)))
           \<and> get_field env ''id'' \<noteq> m_id msg"
proof -
  from assms(1) have f: "\<not> truthy (m_id msg)"
    by auto
  from assms have "m_id msg \<noteq> Some (JStr (uuid_source w (uuid_count w)))"
    by auto
  with onmessage_one_reply [of msg w] f show ?thesis
    by auto
qed

theorem falsy_id_replaced_witness:
  "m_id ping_empty_id \<in> {None, Some JNull, Some (JStr []), Some (JNum 0), Some (JBool False)}
   \<and> length (uuid_source demo_world (uuid_count demo_world)) = 36
   \<and> (\<exists>env w1. onmessage (Object ping_empty_id) demo_world = ([env], w1)
         \<and> get_field env ''id'' = Some (JStr ''3b241101-e2bb-4255-8caf-4136c566a962'')
         \<and> get_field env ''id'' \<noteq> Some (JStr []))"
proof -
  have a: "m_id ping_empty_id \<in> {None, Some JNull, Some (JStr []), Some (JNum 0), Some (JBool False)}"
    by (simp add: ping_empty_id_def)
  have b: "length (uuid_source demo_world (uuid_count demo_world)) = 36"
    by (simp add: demo_world_def)
  have u: "uuid_source demo_world (uuid_count demo_world) = ''3b241101-e2bb-4255-8caf-4136c566a962''"
    by (simp add: demo_world_def)
  have i: "m_id ping_empty_id = Some (JStr [])"
    by (simp add: ping_empty_id_def)
  show ?thesis
    using falsy_id_replaced [OF a b] a b
    unfolding u i by simp
qed

lemma run_ping_inf_id:
  "onmessage (Object ping_inf_id) demo_world =
     ([[(''id'', JNull), (''ok'', JBool True), (''result'', JStr ''pong'')]], demo_world)"
  by (simp add: onmessage_def ping_inf_id_def success_def wire_def or_default_def)

text \<open>
  C8, as the code has it. A message that is not JSON is answered with the one envelope
  \<^verbatim>\<open>{ id: null, ok: false, error: 'Invalid JSON received' }\<close>; nothing is passed on to
  the service worker, whatever its state, and the browser is left as it was. A parsed
  message is answered under an id that is there, and that id is \<^verbatim>\<open>null\<close> exactly
  when the id of the message is a number that is not finite (a number too large for a
  double), which \<^verbatim>\<open>JSON.stringify\<close> prints as \<^verbatim>\<open>null\<close>. \<^verbatim>\<open>null\<close> as a message
  gets no reply, and the greeting carries a UUID.
\<close>

theorem invalid_json_reply:
  "onmessage SyntaxError w =
     ([[(''id'', JNull), (''ok'', JBool False), (''error'', JStr ''Invalid JSON received'')]], w)
   \<and> (\<forall>env \<in> set (fst (onmessage (Object msg) w)).
        get_field env ''id'' \<noteq> None
        \<and> (get_field env ''id'' = Some JNull) = (\<exists>b. m_id msg = Some (JInf b)))
   \<and> fst (onmessage Null w) = []
   \<and> (\<forall>env \<in> set (fst (onopen w)).
           get_field env ''id'' \<noteq> None \<and> get_field env ''id'' \<noteq> Some JNull)"
proof (intro conjI)
  show "onmessage SyntaxError w =
     ([[(''id'', JNull), (''ok'', JBool False), (''error'', JStr ''Invalid JSON received'')]], w)"
    by (simp add: onmessage_def failure_def wire_def)
next
  from onmessage_one_reply [of msg w] obtain env w1 where
    e: "onmessage (Object msg) w = ([env], w1)"
       "get_field env ''id'' =
         Some (if truthy (m_id msg) then stringify (or_default JNull (m_id msg))
               else JStr (uuid_source w (uuid_count w)))"
    by blast
  have "(get_field env ''id'' = Some JNull) = (\<exists>b. m_id msg = Some (JInf b))"
  proof (cases "truthy (m_id msg)")
    case True
    with truthy_value [of "m_id msg"] obtain v where v: "m_id msg = Some v" "v \<noteq> JNull"
      by (cases "m_id msg") auto
    with True e(2) show ?thesis
      by (simp add: or_default_def stringify_null_iff)
  next
    case False
    then have "\<forall>b. m_id msg \<noteq> Some (JInf b)"
      by auto
    with False e(2) show ?thesis
      by simp
  qed
  with e show "\<forall>env \<in> set (fst (onmessage (Object msg) w)).
        get_field env ''id'' \<noteq> None
        \<and> (get_field env ''id'' = Some JNull) = (\<exists>b. m_id msg = Some (JInf b))"
    by simp
next
  show "fst (onmessage Null w) = []"
    by (simp add: onmessage_def)
next
  show "\<forall>env \<in> set (fst (onopen w)).
           get_field env ''id'' \<noteq> None \<and> get_field env ''id'' \<noteq> Some JNull"
    by (simp add: onopen_def randomUUID_def get_field_def wire_def)
qed

theorem invalid_json_reply_witness:
  "fst (onmessage (Object exists_h1) demo_world) =
         [success (JStr ''2'') (JObj [(''exists'', JBool True), (''tabId'', JNum 7)])]
   \<and> get_field (success (JStr ''2'') (JObj [(''exists'', JBool True), (''tabId'', JNum 7)])) ''id''
       \<noteq> Some JNull
   \<and> m_id exists_h1 = Some (JStr ''2'')
   \<and> fst (onmessage (Object ping_inf_id) demo_world) =
         [[(''id'', JNull), (''ok'', JBool True), (''result'', JStr ''pong'')]]
   \<and> m_id ping_inf_id = Some (JInf True)
   \<and> onmessage SyntaxError (demo_world\<lparr>worker_up := False\<rparr>) =
     ([[(''id'', JNull), (''ok'', JBool False), (''error'', JStr ''Invalid JSON received'')]],
      demo_world\<lparr>worker_up := False\<rparr>)"
  using invalid_json_reply [of "demo_world\<lparr>worker_up := False\<rparr>"]
    invalid_json_reply [of demo_world exists_h1] invalid_json_reply [of demo_world ping_inf_id]
    run_exists_h1 run_ping_inf_id
  by (simp add: exists_h1_def ping_inf_id_def)

text \<open>
  C8 as stated fails in its second half: a ping whose id was read as \<^verbatim>\<open>Infinity\<close> is
  valid JSON, and its reply carries the id \<^verbatim>\<open>null\<close>.
\<close>

theorem infinite_id_counterexample:
  "m_cmd ping_inf_id = Some ''ping'' \<and> m_id ping_inf_id = Some (JInf True)
   \<and> Object ping_inf_id \<noteq> SyntaxError
   \<and> fst (onmessage (Object ping_inf_id) demo_world) =
         [[(''id'', JNull), (''ok'', JBool True), (''result'', JStr ''pong'')]]
   \<and> get_field [(''id'', JNull), (''ok'', JBool True), (''result'', JStr ''pong'')] ''id'' = Some JNull"
  using run_ping_inf_id by (simp add: ping_inf_id_def get_field_def)

text \<open>
  C7 fails on the code for the names that \<^verbatim>\<open>handlers\<close> inherits from
  \<^verbatim>\<open>Object.prototype\<close>: \<^verbatim>\<open>hasOwnProperty\<close> is no handler, yet
  \<^verbatim>\<open>handlers['hasOwnProperty']\<close> is a function, so the command is not rejected; a tab
  is resolved, the function is called and returns \<^verbatim>\<open>false\<close>, and the reply is a
  success.
\<close>

theorem inherited_name_accepted:
  "m_cmd inherited_cmd = Some ''hasOwnProperty'' \<and> ''hasOwnProperty'' \<notin> set handler_names
   \<and> fst (onmessage (Object inherited_cmd) demo_world) =
         [[(''id'', JStr ''1''), (''ok'', JBool True), (''result'', JObj [(''tabId'', JNum 7)])]]"
  by (simp add: onmessage_def inherited_cmd_def no_fields_def sendMessage_def serialise_def wire_def
        listener_def
        handlers_has_def handler_names_def object_prototype_def str_text_def or_default_def
        resolveTargetTabId_def stored_usable_def getStoredTabId_def setStoredTabId_def
        call_handler_def inherited_def spread_def success_def demo_world_def)

text \<open>
  A command other than \<^verbatim>\<open>ping\<close> that is neither a handler nor an inherited name is
  rejected by name.
\<close>

lemma unknown_cmd_rejected:
  assumes "\<not> handlers_has (str_text (m_cmd msg))" and "m_cmd msg \<noteq> Some ''ping''"
      and "truthy (m_id msg)" and "worker_up w"
  shows "onmessage (Object msg) w =
           ([failure (stringify (or_default JNull (m_id msg)))
               (''Unknown cmd: '' @ str_text (m_cmd msg))], w)"
  using assms
  by (simp add: onmessage_def sendMessage_def serialise_def listener_def error_text_def
        wire_def failure_def stringify_idem)

section \<open>The tab id in the result\<close>

lemma get_field_spread:
  "get_field (spread a b) k = (case get_field b k of Some v \<Rightarrow> Some v | None \<Rightarrow> get_field a k)"
proof (cases "get_field b k")
  case None
  then have "k \<notin> fst ` set b"
    by (simp add: get_field_def map_of_eq_None_iff)
  then have "map_of (filter (\<lambda>(k, v). k \<notin> fst ` set b) a) k = map_of a k"
    by (induction a) (auto simp: image_iff)
  with None show ?thesis
    by (simp add: get_field_def spread_def map_add_def)
next
  case (Some v)
  then show ?thesis
    by (simp add: get_field_def spread_def map_add_def)
qed

lemma click_no_tabId: "fst (click p pg) = Inr res \<Longrightarrow> get_field res ''tabId'' = None"
  by (auto simp: click_def Let_def get_field_def split: prod.splits sum.splits option.splits
           simp del: find_poll.simps)

lemma type_no_tabId: "fst (type p pg) = Inr res \<Longrightarrow> get_field res ''tabId'' = None"
  by (auto simp: type_def Let_def get_field_def typed_def split: prod.splits sum.splits option.splits
           simp del: find_poll.simps)

lemma set_no_tabId: "fst (set_h p pg) = Inr res \<Longrightarrow> get_field res ''tabId'' = None"
  by (auto simp: set_h_def Let_def get_field_def split: sum.splits option.splits)

lemma exists_no_tabId: "fst (exists_h p pg) = Inr res \<Longrightarrow> get_field res ''tabId'' = None"
  by (auto simp: exists_h_def get_field_def split: sum.splits)

lemma get_html_no_tabId: "fst (get_html p pg) = Inr res \<Longrightarrow> get_field res ''tabId'' = None"
  by (auto simp: get_html_def Let_def get_field_def split: sum.splits)

lemma exec_js_no_tabId: "fst (exec_js p pg) = Inr res \<Longrightarrow> get_field res ''tabId'' = None"
  by (auto simp: exec_js_def get_field_def split: js_outcome.splits)

lemma xpath_action_no_tabId:
  "fst (xpath_action p action snap pg) = Inr res \<Longrightarrow> get_field res ''tabId'' = None"
  by (auto simp: xpath_action_def Let_def get_field_def typed_def
           split: if_splits sum.splits option.splits)

lemma xpath_no_tabId: "fst (xpath p pg) = Inr res \<Longrightarrow> get_field res ''tabId'' = None"
  by (auto simp: xpath_def Let_def xpath_action_no_tabId
           split: option.splits json.splits if_splits prod.splits sum.splits
           simp del: waitForIndex.simps)

lemma runInPage_result:
  "fst (runInPage tabId func w) = Inr res \<Longrightarrow> \<exists>pg. fst (func pg) = Inr res"
  by (auto simp: runInPage_def split: option.splits sum.splits prod.splits) (metis fst_conv)

lemma call_handler_no_tabId:
  assumes "cmd \<in> set handler_names" and "cmd \<noteq> ''nav''"
      and "fst (call_handler cmd payload tabId w) = Inr res"
  shows "get_field res ''tabId'' = None"
proof -
  from assms(1,2) consider "cmd = ''click''" | "cmd = ''type''" | "cmd = ''set''" | "cmd = ''exists''"
    | "cmd = ''get_html''" | "cmd = ''exec_js''" | "cmd = ''xpath''"
    unfolding handler_names_def by fastforce
  then show ?thesis
  proof cases
    case 1
    with assms(3) have "fst (runInPage tabId (click payload) w) = Inr res"
      by (simp add: call_handler_def)
    from runInPage_result [OF this] obtain pg where "fst (click payload pg) = Inr res" ..
    then show ?thesis by (rule click_no_tabId)
  next
    case 2
    with assms(3) have "fst (runInPage tabId (type payload) w) = Inr res"
      by (simp add: call_handler_def)
    from runInPage_result [OF this] obtain pg where "fst (type payload pg) = Inr res" ..
    then show ?thesis by (rule type_no_tabId)
  next
    case 3
    with assms(3) have "fst (runInPage tabId (set_h payload) w) = Inr res"
      by (simp add: call_handler_def)
    from runInPage_result [OF this] obtain pg where "fst (set_h payload pg) = Inr res" ..
    then show ?thesis by (rule set_no_tabId)
  next
    case 4
    with assms(3) have "fst (runInPage tabId (exists_h payload) w) = Inr res"
      by (simp add: call_handler_def)
    from runInPage_result [OF this] obtain pg where "fst (exists_h payload pg) = Inr res" ..
    then show ?thesis by (rule exists_no_tabId)
  next
    case 5
    with assms(3) have "fst (runInPage tabId (get_html payload) w) = Inr res"
      by (simp add: call_handler_def)
    from runInPage_result [OF this] obtain pg where "fst (get_html payload pg) = Inr res" ..
    then show ?thesis by (rule get_html_no_tabId)
  next
    case 6
    with assms(3) have "fst (runInPage tabId (exec_js payload) w) = Inr res"
      by (simp add: call_handler_def)
    from runInPage_result [OF this] obtain pg where "fst (exec_js payload pg) = Inr res" ..
    then show ?thesis by (rule exec_js_no_tabId)
  next
    case 7
    with assms(3) have "fst (runInPage tabId (xpath payload) w) = Inr res"
      by (simp add: call_handler_def)
    from runInPage_result [OF this] obtain pg where "fst (xpath payload pg) = Inr res" ..
    then show ?thesis by (rule xpath_no_tabId)
  qed
qed

lemma listener_success:
  assumes "cmd \<in> set handler_names" and "cmd \<noteq> ''nav''"
      and "resolveTargetTabId (m_tabId payload) w = (tabId, w1)"
      and "call_handler cmd payload tabId w1 = (Inr res, w2)"
  shows "listener \<lparr>r_type = ''cmd'', r_id = i, r_cmd = Some cmd, r_payload = payload\<rparr> w =
           (Some (success i (JObj (spread [(''tabId'', JNum (of_int tabId))] res))), w2)"
  using assms by (simp add: listener_def handlers_has_def str_text_def or_default_def)

text \<open>
  For the handlers other than \<^verbatim>\<open>nav\<close> the reply to a command that succeeds is
  \<^verbatim>\<open>{ id, ok: true, result: { tabId, ...res } }\<close>, where \<^verbatim>\<open>tabId\<close> is the tab the
  resolver chose and \<^verbatim>\<open>res\<close> what the handler returned. No handler returns a
  \<^verbatim>\<open>tabId\<close>, so the result reads the resolved tab there, next to every property of
  \<^verbatim>\<open>res\<close>; the spread comes second, so a \<^verbatim>\<open>tabId\<close> in a result replaces the
  resolved one.
\<close>

lemma handler_result_carries_tabId:
  assumes "cmd \<in> set handler_names" and "cmd \<noteq> ''nav''"
      and "resolveTargetTabId (m_tabId payload) w = (tabId, w1)"
      and "call_handler cmd payload tabId w1 = (Inr res, w2)"
  shows "listener \<lparr>r_type = ''cmd'', r_id = i, r_cmd = Some cmd, r_payload = payload\<rparr> w =
           (Some (success i (JObj (spread [(''tabId'', JNum (of_int tabId))] res))), w2)
         \<and> get_field (spread [(''tabId'', JNum (of_int tabId))] res) ''tabId'' = Some (JNum (of_int tabId))
         \<and> (\<forall>k v. get_field res k = Some v \<longrightarrow>
                get_field (spread [(''tabId'', JNum (of_int tabId))] res) k = Some v)
         \<and> (\<forall>r v. get_field r ''tabId'' = Some v \<longrightarrow>
                get_field (spread [(''tabId'', JNum (of_int tabId))] r) ''tabId'' = Some v)"
proof -
  from assms(4) have "fst (call_handler cmd payload tabId w1) = Inr res"
    by simp
  from call_handler_no_tabId [OF assms(1,2) this]
  have "get_field (spread [(''tabId'', JNum (of_int tabId))] res) ''tabId'' = Some (JNum (of_int tabId))"
    by (simp add: get_field_spread) (simp add: get_field_def)
  with listener_success [OF assms] show ?thesis
    by (simp add: get_field_spread)
qed

text \<open>
  C9 fails on the code for a command that is no handler and yet succeeds: for
  \<^verbatim>\<open>{"id":"1","cmd":"constructor","tabId":"x"}\<close> the lookup
  \<^verbatim>\<open>handlers['constructor']\<close> finds \<^verbatim>\<open>Object\<close>, the resolver passes over the
  \<^verbatim>\<open>tabId\<close> that is no integer and chooses the active tab 7,
  \<^verbatim>\<open>Object(payload, 7)\<close> returns the payload, and in
  \<^verbatim>\<open>{ tabId, ...payload }\<close> the \<^verbatim>\<open>tabId\<close> of the payload replaces the resolved
  one: the reply is a success whose \<^verbatim>\<open>result.tabId\<close> is \<^verbatim>\<open>"x"\<close>.
\<close>

theorem inherited_result_replaces_tabId:
  "m_cmd ctor_cmd = Some ''constructor'' \<and> ''constructor'' \<notin> set handler_names
   \<and> ''constructor'' \<noteq> ''ping''
   \<and> fst (resolveTargetTabId (m_tabId ctor_cmd) demo_world) = 7
   \<and> fst (onmessage (Object ctor_cmd) demo_world) =
         [[(''id'', JStr ''1''), (''ok'', JBool True),
           (''result'', JObj [(''id'', JStr ''1''), (''cmd'', JStr ''constructor''),
                              (''tabId'', JStr ''x'')])]]
   \<and> get_field [(''id'', JStr ''1''), (''cmd'', JStr ''constructor''), (''tabId'', JStr ''x'')] ''tabId''
       = Some (JStr ''x'')"
  by (simp add: onmessage_def ctor_cmd_def no_fields_def sendMessage_def serialise_def wire_def
        listener_def get_field_def
        handlers_has_def handler_names_def object_prototype_def str_text_def or_default_def
        resolveTargetTabId_def stored_usable_def getStoredTabId_def setStoredTabId_def
        call_handler_def inherited_def message_fields_def opt_field_def spread_def success_def
        demo_world_def)

end
